theory Spec2Isabelle
  imports Main "HOL-Library.Word"
begin

section \<open>Entity store and path reconciliation of \<^verbatim>\<open>internal/database/crud.go\<close>\<close>

text \<open>
  The development embeds the functions of \<^verbatim>\<open>crud.go\<close> that read and write the
  SQLite store and reconcile a candidate directory with the stored rows. Three things
  lie outside the file and are made explicit:
  \<^item> the operating system (\<^verbatim>\<open>filepath.Abs\<close>, \<^verbatim>\<open>filepath.Join\<close>, \<^verbatim>\<open>os.Stat\<close>) and
    \<^verbatim>\<open>strings.EqualFold\<close> are fields of an environment record, so every theorem holds
    for any platform's path rules and any file system content;
  \<^item> the store is a record of tables (lists of rows, in the order in which the store
    returns them) following the \<^verbatim>\<open>schema\<close> constant, with its \<^verbatim>\<open>UNIQUE\<close> and
    \<^verbatim>\<open>FOREIGN KEY\<close> constraints and the \<^verbatim>\<open>NOCASE\<close> collation of \<^verbatim>\<open>parent_dir\<close>;
  \<^item> a statement can fail for reasons that the tables do not determine (a locked or
    unreachable database file): the store carries a schedule of such faults, one entry
    per statement executed, so that each \<^verbatim>\<open>if err != nil\<close> of the source is a live
    branch of the model.
  The \<^verbatim>\<open>fmt.Printf\<close> notices of the source are not modelled: they change neither the
  store nor the result.
\<close>

subsection \<open>Errors\<close>

datatype go_error =
    ErrNoRows            \<comment> \<open>\<^verbatim>\<open>sql.ErrNoRows\<close>\<close>
  | ErrUnique            \<comment> \<open>a \<^verbatim>\<open>UNIQUE\<close> constraint of the schema failed\<close>
  | ErrForeignKey        \<comment> \<open>a \<^verbatim>\<open>FOREIGN KEY\<close> constraint of the schema failed\<close>
  | ErrStore nat         \<comment> \<open>any other error of the store, by an error code\<close>
  | ErrOS nat            \<comment> \<open>an error of the operating system, by an error code\<close>

subsection \<open>The environment: paths, files and case folding\<close>

record env =
  filepath_Abs :: "string \<Rightarrow> go_error + string"
  filepath_Join :: "string \<Rightarrow> string \<Rightarrow> string"
  os_Stat :: "string \<Rightarrow> go_error option"        \<comment> \<open>the error returned; \<open>None\<close> is \<^verbatim>\<open>nil\<close>\<close>
  strings_EqualFold :: "string \<Rightarrow> string \<Rightarrow> bool"

subsection \<open>Rows\<close>

text \<open>
  The Go structs are declared in a file that is not part of the sources read here.
  The records take their fields from the columns of the \<^verbatim>\<open>schema\<close> constant and from
  the field accesses of \<^verbatim>\<open>crud.go\<close> (\<^verbatim>\<open>entity.Id\<close>, \<^verbatim>\<open>entity.Uid\<close>,
  \<^verbatim>\<open>entity.LstId\<close>, \<^verbatim>\<open>entity.Name\<close>, \<^verbatim>\<open>entity.ParentDir\<close>,
  \<^verbatim>\<open>entity.LatestReleaseTime\<close>, \<^verbatim>\<open>entity.MediaCount\<close>). A nullable column is an
  \<open>option\<close>, \<open>None\<close> for \<^verbatim>\<open>NULL\<close>. Remote identifiers (\<^verbatim>\<open>uint64\<close> account ids,
  \<^verbatim>\<open>int64\<close> list ids) are 64-bit words; they are only compared. Row ids are integers
  of the store; their narrowing to 32 bits on the Go side is not modelled. A time stamp
  is an integer (seconds).
\<close>

type_synonym uint64 = "64 word"
type_synonym int64 = "64 word"

record User =
  u_Id :: uint64
  u_ScreenName :: string
  u_Name :: string
  u_IsProtected :: bool
  u_FriendsCount :: int

record Lst =
  l_Id :: uint64
  l_Name :: string
  l_OwnerId :: uint64

record LstEntity =
  le_Id :: "int option"
  le_LstId :: int64
  le_Name :: string
  le_ParentDir :: string

record UserEntity =
  ue_Id :: "int option"
  ue_Uid :: uint64
  ue_Name :: string
  ue_LatestReleaseTime :: "int option"
  ue_ParentDir :: string
  ue_MediaCount :: "int option"

record UserLink =
  ul_Id :: "int option"
  ul_Uid :: uint64
  ul_Name :: string
  ul_ParentLstEntityId :: int

subsection \<open>The store\<close>

record store =
  users :: "User list"
  lsts :: "Lst list"
  lst_entities :: "LstEntity list"
  user_entities :: "UserEntity list"
  user_links :: "UserLink list"
  foreign_keys :: bool              \<comment> \<open>whether the connection enforces foreign keys\<close>
  faults :: "nat option list"       \<comment> \<open>the fault, if any, of each statement to come\<close>

text \<open>The \<^verbatim>\<open>NOCASE\<close> collation: the 26 upper case letters of ASCII are folded.\<close>

definition nocase_lower :: "char \<Rightarrow> char" where
  "nocase_lower c =
     (let n = (of_char c :: nat) in if 65 \<le> n \<and> n \<le> 90 then char_of (n + 32) else c)"

definition nocase_eq :: "string \<Rightarrow> string \<Rightarrow> bool" where
  "nocase_eq a b = (map nocase_lower a = map nocase_lower b)"

text \<open>Every statement first meets the fault scheduled for it, if any.\<close>

definition next_fault :: "store \<Rightarrow> go_error option \<times> store" where
  "next_fault s =
     (case faults s of
        [] \<Rightarrow> (None, s)
      | f # fs \<Rightarrow> (map_option ErrStore f, s\<lparr>faults := fs\<rparr>))"

text \<open>
  \<^verbatim>\<open>db.Select\<close> returns all rows of a query, \<^verbatim>\<open>db.Get\<close> the first one or
  \<^verbatim>\<open>sql.ErrNoRows\<close>, \<^verbatim>\<open>db.Exec\<close> and \<^verbatim>\<open>db.NamedExec\<close> run a statement that changes
  the tables or is rejected by a constraint. A query is a function from the store to
  the rows it matches; a statement is a function from the store to an error or to its
  result and the new store.
\<close>

definition db_Select :: "store \<Rightarrow> (store \<Rightarrow> 'a list) \<Rightarrow> (go_error + 'a list) \<times> store" where
  "db_Select s q =
     (case next_fault s of
        (Some e, s') \<Rightarrow> (Inl e, s')
      | (None, s') \<Rightarrow> (Inr (q s'), s'))"

definition db_Get :: "store \<Rightarrow> (store \<Rightarrow> 'a list) \<Rightarrow> (go_error + 'a) \<times> store" where
  "db_Get s q =
     (case next_fault s of
        (Some e, s') \<Rightarrow> (Inl e, s')
      | (None, s') \<Rightarrow>
          (case q s' of
             [] \<Rightarrow> (Inl ErrNoRows, s')
           | r # _ \<Rightarrow> (Inr r, s')))"

definition db_Exec ::
  "store \<Rightarrow> (store \<Rightarrow> go_error + 'r \<times> store) \<Rightarrow> (go_error + 'r) \<times> store" where
  "db_Exec s stmt =
     (case next_fault s of
        (Some e, s') \<Rightarrow> (Inl e, s')
      | (None, s') \<Rightarrow>
          (case stmt s' of
             Inl e \<Rightarrow> (Inl e, s')
           | Inr (r, s'') \<Rightarrow> (Inr r, s'')))"

subsection \<open>The queries of the source\<close>

definition q_users_by_id :: "uint64 \<Rightarrow> store \<Rightarrow> User list" where
  \<comment> \<open>\<^verbatim>\<open>SELECT * FROM users WHERE id=?\<close>\<close>
  "q_users_by_id uid s = filter (\<lambda>r. u_Id r = uid) (users s)"

definition q_lsts_by_id :: "uint64 \<Rightarrow> store \<Rightarrow> Lst list" where
  \<comment> \<open>\<^verbatim>\<open>SELECT * FROM lsts WHERE id = ?\<close>\<close>
  "q_lsts_by_id lid s = filter (\<lambda>r. l_Id r = lid) (lsts s)"

definition q_user_entities_by_id :: "int \<Rightarrow> store \<Rightarrow> UserEntity list" where
  \<comment> \<open>\<^verbatim>\<open>SELECT * FROM user_entities WHERE id=?\<close>\<close>
  "q_user_entities_by_id i s = filter (\<lambda>r. ue_Id r = Some i) (user_entities s)"

definition q_user_entities_by_uid :: "uint64 \<Rightarrow> store \<Rightarrow> UserEntity list" where
  \<comment> \<open>\<^verbatim>\<open>SELECT * FROM user_entities WHERE user_id=?\<close>\<close>
  "q_user_entities_by_uid uid s = filter (\<lambda>r. ue_Uid r = uid) (user_entities s)"

definition q_user_entities_by_uid_dir :: "uint64 \<Rightarrow> string \<Rightarrow> store \<Rightarrow> UserEntity list" where
  \<comment> \<open>\<^verbatim>\<open>SELECT * FROM user_entities WHERE user_id=? AND parent_dir=?\<close>\<close>
  "q_user_entities_by_uid_dir uid dir s =
     filter (\<lambda>r. ue_Uid r = uid \<and> nocase_eq (ue_ParentDir r) dir) (user_entities s)"

definition q_lst_entities_by_id :: "int \<Rightarrow> store \<Rightarrow> LstEntity list" where
  \<comment> \<open>\<^verbatim>\<open>SELECT * FROM lst_entities WHERE id=?\<close>\<close>
  "q_lst_entities_by_id i s = filter (\<lambda>r. le_Id r = Some i) (lst_entities s)"

definition q_lst_entities_by_lid :: "int64 \<Rightarrow> store \<Rightarrow> LstEntity list" where
  \<comment> \<open>\<^verbatim>\<open>SELECT * FROM lst_entities WHERE lst_id=?\<close>\<close>
  "q_lst_entities_by_lid lid s = filter (\<lambda>r. le_LstId r = lid) (lst_entities s)"

definition q_lst_entities_by_lid_dir :: "int64 \<Rightarrow> string \<Rightarrow> store \<Rightarrow> LstEntity list" where
  \<comment> \<open>\<^verbatim>\<open>SELECT * FROM lst_entities WHERE lst_id=? AND parent_dir=?\<close>\<close>
  "q_lst_entities_by_lid_dir lid dir s =
     filter (\<lambda>r. le_LstId r = lid \<and> nocase_eq (le_ParentDir r) dir) (lst_entities s)"

definition q_user_links_by_uid_parent :: "uint64 \<Rightarrow> int \<Rightarrow> store \<Rightarrow> UserLink list" where
  \<comment> \<open>\<^verbatim>\<open>SELECT * FROM user_links WHERE user_id = ? AND parent_lst_entity_id = ?\<close>\<close>
  "q_user_links_by_uid_parent uid p s =
     filter (\<lambda>r. ul_Uid r = uid \<and> ul_ParentLstEntityId r = p) (user_links s)"

subsection \<open>The statements of the source\<close>

text \<open>
  \<^verbatim>\<open>UNIQUE (user_id, parent_dir)\<close>: a row other than the one written already holds
  the pair. The id \<open>rid\<close> is that of the row written (\<open>None\<close> for a row to insert).
\<close>

definition ue_taken :: "UserEntity list \<Rightarrow> int option \<Rightarrow> uint64 \<Rightarrow> string \<Rightarrow> bool" where
  "ue_taken rows rid uid dir =
     list_ex (\<lambda>r. ue_Id r \<noteq> rid \<and> ue_Uid r = uid \<and> nocase_eq (ue_ParentDir r) dir) rows"

definition le_taken :: "LstEntity list \<Rightarrow> int option \<Rightarrow> int64 \<Rightarrow> string \<Rightarrow> bool" where
  "le_taken rows rid lid dir =
     list_ex (\<lambda>r. le_Id r \<noteq> rid \<and> le_LstId r = lid \<and> nocase_eq (le_ParentDir r) dir) rows"

text \<open>A row whose primary key is not given gets the largest row id plus one.\<close>

definition next_rowid :: "int option list \<Rightarrow> int" where
  "next_rowid ids = (case [i. Some i \<leftarrow> ids] of [] \<Rightarrow> 1 | i # is \<Rightarrow> fold max is i + 1)"

definition sql_update_user_entity_dir ::
  "string \<Rightarrow> int option \<Rightarrow> store \<Rightarrow> go_error + unit \<times> store" where
  \<comment> \<open>\<^verbatim>\<open>UPDATE user_entities SET parent_dir=? WHERE id=?\<close>\<close>
  "sql_update_user_entity_dir dir rid s =
     (let rows = user_entities s;
          hit = (\<lambda>r. rid \<noteq> None \<and> ue_Id r = rid)
      in if list_ex (\<lambda>r. hit r \<and> ue_taken rows rid (ue_Uid r) dir) rows
         then Inl ErrUnique
         else Inr ((), s\<lparr>user_entities :=
                map (\<lambda>r. if hit r then r\<lparr>ue_ParentDir := dir\<rparr> else r) rows\<rparr>))"

definition sql_update_user_entity_dir_name ::
  "string \<Rightarrow> string \<Rightarrow> int option \<Rightarrow> store \<Rightarrow> go_error + unit \<times> store" where
  \<comment> \<open>\<^verbatim>\<open>UPDATE user_entities SET parent_dir=?, name=? WHERE id=?\<close>\<close>
  "sql_update_user_entity_dir_name dir name rid s =
     (let rows = user_entities s;
          hit = (\<lambda>r. rid \<noteq> None \<and> ue_Id r = rid)
      in if list_ex (\<lambda>r. hit r \<and> ue_taken rows rid (ue_Uid r) dir) rows
         then Inl ErrUnique
         else Inr ((), s\<lparr>user_entities :=
                map (\<lambda>r. if hit r then r\<lparr>ue_ParentDir := dir, ue_Name := name\<rparr> else r) rows\<rparr>))"

definition sql_insert_user_entity ::
  "uint64 \<Rightarrow> string \<Rightarrow> string \<Rightarrow> store \<Rightarrow> go_error + int \<times> store" where
  \<comment> \<open>\<^verbatim>\<open>INSERT INTO user_entities(user_id, name, parent_dir) VALUES(:user_id, :name, :parent_dir)\<close>;
      the result is the id of the row inserted\<close>
  "sql_insert_user_entity uid name dir s =
     (let rows = user_entities s in
      if list_ex (\<lambda>r. ue_Uid r = uid \<and> nocase_eq (ue_ParentDir r) dir) rows
      then Inl ErrUnique
      else if foreign_keys s \<and> \<not> list_ex (\<lambda>u. u_Id u = uid) (users s)
      then Inl ErrForeignKey
      else (let i = next_rowid (map ue_Id rows) in
            Inr (i, s\<lparr>user_entities := rows @
              [\<lparr>ue_Id = Some i, ue_Uid = uid, ue_Name = name, ue_LatestReleaseTime = None,
                ue_ParentDir = dir, ue_MediaCount = None\<rparr>]\<rparr>)))"

definition sql_update_lst_entity_dir ::
  "string \<Rightarrow> int option \<Rightarrow> store \<Rightarrow> go_error + unit \<times> store" where
  \<comment> \<open>\<^verbatim>\<open>UPDATE lst_entities SET parent_dir=? WHERE id=?\<close>\<close>
  "sql_update_lst_entity_dir dir rid s =
     (let rows = lst_entities s;
          hit = (\<lambda>r. rid \<noteq> None \<and> le_Id r = rid)
      in if list_ex (\<lambda>r. hit r \<and> le_taken rows rid (le_LstId r) dir) rows
         then Inl ErrUnique
         else Inr ((), s\<lparr>lst_entities :=
                map (\<lambda>r. if hit r then r\<lparr>le_ParentDir := dir\<rparr> else r) rows\<rparr>))"

definition sql_insert_lst_entity ::
  "int64 \<Rightarrow> string \<Rightarrow> string \<Rightarrow> store \<Rightarrow> go_error + int \<times> store" where
  \<comment> \<open>\<^verbatim>\<open>INSERT INTO lst_entities(lst_id, name, parent_dir) VALUES(:lst_id, :name, :parent_dir)\<close>\<close>
  "sql_insert_lst_entity lid name dir s =
     (let rows = lst_entities s in
      if list_ex (\<lambda>r. le_LstId r = lid \<and> nocase_eq (le_ParentDir r) dir) rows
      then Inl ErrUnique
      else (let i = next_rowid (map le_Id rows) in
            Inr (i, s\<lparr>lst_entities := rows @
              [\<lparr>le_Id = Some i, le_LstId = lid, le_Name = name, le_ParentDir = dir\<rparr>]\<rparr>)))"

subsection \<open>Get operations\<close>

text \<open>
  Each get runs one \<^verbatim>\<open>db.Get\<close>; \<^verbatim>\<open>sql.ErrNoRows\<close> becomes the result \<^verbatim>\<open>nil, nil\<close>
  (\<open>Inr None\<close>), any other error is returned.
\<close>

definition GetUserById :: "store \<Rightarrow> uint64 \<Rightarrow> (go_error + User option) \<times> store" where
  "GetUserById s uid =
     (case db_Get s (q_users_by_id uid) of
        (Inl e, s') \<Rightarrow> if e = ErrNoRows then (Inr None, s') else (Inl e, s')
      | (Inr result, s') \<Rightarrow> (Inr (Some result), s'))"

definition GetUserEntity :: "store \<Rightarrow> int \<Rightarrow> (go_error + UserEntity option) \<times> store" where
  "GetUserEntity s i =
     (case db_Get s (q_user_entities_by_id i) of
        (Inl e, s') \<Rightarrow> if e = ErrNoRows then (Inr None, s') else (Inl e, s')
      | (Inr result, s') \<Rightarrow> (Inr (Some result), s'))"

definition GetLst :: "store \<Rightarrow> uint64 \<Rightarrow> (go_error + Lst option) \<times> store" where
  "GetLst s lid =
     (case db_Get s (q_lsts_by_id lid) of
        (Inl e, s') \<Rightarrow> if e = ErrNoRows then (Inr None, s') else (Inl e, s')
      | (Inr result, s') \<Rightarrow> (Inr (Some result), s'))"

definition GetLstEntity :: "store \<Rightarrow> int \<Rightarrow> (go_error + LstEntity option) \<times> store" where
  "GetLstEntity s i =
     (case db_Get s (q_lst_entities_by_id i) of
        (Inl e, s') \<Rightarrow> if e = ErrNoRows then (Inr None, s') else (Inl e, s')
      | (Inr result, s') \<Rightarrow> (Inr (Some result), s'))"

definition GetUserLink :: "store \<Rightarrow> uint64 \<Rightarrow> int \<Rightarrow> (go_error + UserLink option) \<times> store" where
  "GetUserLink s uid parentLstEntityId =
     (case db_Get s (q_user_links_by_uid_parent uid parentLstEntityId) of
        (Inl e, s') \<Rightarrow> if e = ErrNoRows then (Inr None, s') else (Inl e, s')
      | (Inr res, s') \<Rightarrow> (Inr (Some res), s'))"

subsection \<open>Locating an account entity\<close>

text \<open>
  The loop of \<^verbatim>\<open>LocateUserEntity\<close> over the rows of the account: the first row whose
  stored directory holds the marker file is rewritten and returned. The result of the
  \<^verbatim>\<open>UPDATE\<close> is not read by the source, so only the store it leaves is kept.
\<close>

fun locate_user_scan ::
  "env \<Rightarrow> store \<Rightarrow> string \<Rightarrow> UserEntity list \<Rightarrow> (go_error + UserEntity option) \<times> store" where
  "locate_user_scan e s absPath [] = (Inr None, s)"
| "locate_user_scan e s absPath (entity # rest) =
     (if os_Stat e (filepath_Join e (ue_ParentDir entity) ''.user'') = None
      then (Inr (Some (entity\<lparr>ue_ParentDir := absPath\<rparr>)),
            snd (db_Exec s (sql_update_user_entity_dir absPath (ue_Id entity))))
      else locate_user_scan e s absPath rest)"

text \<open>Lines 310 to 347: the exact match, then the scan.\<close>

definition locate_user_rest ::
  "env \<Rightarrow> store \<Rightarrow> uint64 \<Rightarrow> string \<Rightarrow> (go_error + UserEntity option) \<times> store" where
  "locate_user_rest e s uid absPath =
     (case db_Get s (q_user_entities_by_uid_dir uid absPath) of
        (Inl err, s1) \<Rightarrow>
          if err = ErrNoRows
          then (case db_Select s1 (q_user_entities_by_uid uid) of
                  (Inl err', s2) \<Rightarrow> (Inl err', s2)
                | (Inr entities, s2) \<Rightarrow> locate_user_scan e s2 absPath entities)
          else (Inl err, s1)
      | (Inr result, s1) \<Rightarrow> (Inr (Some result), s1))"

definition LocateUserEntity ::
  "env \<Rightarrow> store \<Rightarrow> uint64 \<Rightarrow> string \<Rightarrow> (go_error + UserEntity option) \<times> store" where
  "LocateUserEntity e s uid parentDIr =
     (case filepath_Abs e parentDIr of
        Inl err \<Rightarrow> (Inl err, s)
      | Inr absPath \<Rightarrow>
          if os_Stat e (filepath_Join e absPath ''.user'') = None
          then (case db_Select s (q_user_entities_by_uid uid) of
                  (Inl err, s1) \<Rightarrow> (Inl err, s1)
                | (Inr [], s1) \<Rightarrow> locate_user_rest e s1 uid absPath
                | (Inr (entity # _), s1) \<Rightarrow>
                    (Inr (Some (entity\<lparr>ue_ParentDir := absPath\<rparr>)),
                     snd (db_Exec s1 (sql_update_user_entity_dir absPath (ue_Id entity)))))
          else locate_user_rest e s uid absPath)"

subsection \<open>Locating a list entity\<close>

fun locate_lst_scan ::
  "env \<Rightarrow> store \<Rightarrow> string \<Rightarrow> LstEntity list \<Rightarrow> (go_error + LstEntity option) \<times> store" where
  "locate_lst_scan e s absPath [] = (Inr None, s)"
| "locate_lst_scan e s absPath (entity # rest) =
     (if os_Stat e absPath = None
      then (Inr (Some (entity\<lparr>le_ParentDir := absPath\<rparr>)),
            snd (db_Exec s (sql_update_lst_entity_dir absPath (le_Id entity))))
      else locate_lst_scan e s absPath rest)"

definition LocateLstEntity ::
  "env \<Rightarrow> store \<Rightarrow> int64 \<Rightarrow> string \<Rightarrow> (go_error + LstEntity option) \<times> store" where
  "LocateLstEntity e s lid parentDir =
     (case filepath_Abs e parentDir of
        Inl err \<Rightarrow> (Inl err, s)
      | Inr absPath \<Rightarrow>
          (case db_Get s (q_lst_entities_by_lid_dir lid absPath) of
             (Inl err, s1) \<Rightarrow>
               if err = ErrNoRows
               then (case db_Select s1 (q_lst_entities_by_lid lid) of
                       (Inl err', s2) \<Rightarrow> (Inl err', s2)
                     | (Inr entities, s2) \<Rightarrow> locate_lst_scan e s2 absPath entities)
               else (Inl err, s1)
           | (Inr result, s1) \<Rightarrow> (Inr (Some result), s1)))"

subsection \<open>Creating or relocating an account entity\<close>

text \<open>
  \<^verbatim>\<open>CreateUserEntity\<close> returns only an error and writes the id into the entity it was
  given; the model returns that entity. The result of an \<^verbatim>\<open>INSERT\<close> always carries the
  id of the new row, so \<^verbatim>\<open>LastInsertId\<close> does not fail.
\<close>

definition CreateUserEntity :: "env \<Rightarrow> store \<Rightarrow> UserEntity \<Rightarrow> (go_error + UserEntity) \<times> store" where
  "CreateUserEntity e s entity =
     (case filepath_Abs e (ue_ParentDir entity) of
        Inl err \<Rightarrow> (Inl err, s)
      | Inr abs' \<Rightarrow>
          (let entity = entity\<lparr>ue_ParentDir := abs'\<rparr> in
           case db_Exec s (sql_insert_user_entity (ue_Uid entity) (ue_Name entity) (ue_ParentDir entity)) of
             (Inl err, s1) \<Rightarrow> (Inl err, s1)
           | (Inr lastId, s1) \<Rightarrow> (Inr (entity\<lparr>ue_Id := Some lastId\<rparr>), s1)))"

text \<open>
  The second loop of \<^verbatim>\<open>CreateOrUpdateUserEntityWithPathChange\<close>: \<open>None\<close> when no row
  of the account has the marker file in its stored directory, so that the insertion
  follows.
\<close>

fun create_user_scan ::
  "env \<Rightarrow> store \<Rightarrow> UserEntity \<Rightarrow> UserEntity list \<Rightarrow> ((go_error + UserEntity) \<times> store) option" where
  "create_user_scan e s entity [] = None"
| "create_user_scan e s entity (existingEntity # rest) =
     (if os_Stat e (filepath_Join e (ue_ParentDir existingEntity) ''.user'') = None
      then (case db_Exec s (sql_update_user_entity_dir_name (ue_ParentDir entity) (ue_Name entity)
                              (ue_Id existingEntity)) of
              (Inl err, s1) \<Rightarrow> Some (Inl err, s1)
            | (Inr _, s1) \<Rightarrow>
                Some (Inr (existingEntity\<lparr>ue_ParentDir := ue_ParentDir entity,
                                           ue_Name := ue_Name entity\<rparr>), s1))
      else create_user_scan e s entity rest)"

text \<open>Lines 57 to 97: the scan of the stored rows, then the insertion.\<close>

definition create_user_rest ::
  "env \<Rightarrow> store \<Rightarrow> UserEntity \<Rightarrow> (go_error + UserEntity) \<times> store" where
  "create_user_rest e s entity =
     (case db_Select s (q_user_entities_by_uid (ue_Uid entity)) of
        (Inl err, s1) \<Rightarrow> (Inl err, s1)
      | (Inr entities, s1) \<Rightarrow>
          (case create_user_scan e s1 entity entities of
             Some r \<Rightarrow> r
           | None \<Rightarrow>
               (case db_Exec s1 (sql_insert_user_entity (ue_Uid entity) (ue_Name entity)
                                   (ue_ParentDir entity)) of
                  (Inl err, s2) \<Rightarrow> (Inl err, s2)
                | (Inr lastId, s2) \<Rightarrow> (Inr (entity\<lparr>ue_Id := Some lastId\<rparr>), s2))))"

definition CreateOrUpdateUserEntityWithPathChange ::
  "env \<Rightarrow> store \<Rightarrow> UserEntity \<Rightarrow> string \<Rightarrow> (go_error + UserEntity) \<times> store" where
  "CreateOrUpdateUserEntityWithPathChange e s entity rootPath =
     (case filepath_Abs e (ue_ParentDir entity) of
        Inl err \<Rightarrow> (Inl err, s)
      | Inr absPath \<Rightarrow>
          (let entity = entity\<lparr>ue_ParentDir := absPath\<rparr> in
           if os_Stat e (filepath_Join e absPath ''.user'') = None
           then (case db_Select s (q_user_entities_by_uid (ue_Uid entity)) of
                   (Inl err, s1) \<Rightarrow> (Inl err, s1)
                 | (Inr [], s1) \<Rightarrow> create_user_rest e s1 entity
                 | (Inr (existingEntity # _), s1) \<Rightarrow>
                     (case db_Exec s1 (sql_update_user_entity_dir_name (ue_ParentDir entity)
                                         (ue_Name entity) (ue_Id existingEntity)) of
                        (Inl err, s2) \<Rightarrow> (Inl err, s2)
                      | (Inr _, s2) \<Rightarrow>
                          (Inr (existingEntity\<lparr>ue_ParentDir := ue_ParentDir entity,
                                                ue_Name := ue_Name entity\<rparr>), s2)))
           else create_user_rest e s entity))"

subsection \<open>Creating or relocating a list entity\<close>

fun create_lst_scan ::
  "env \<Rightarrow> store \<Rightarrow> LstEntity \<Rightarrow> LstEntity list \<Rightarrow> ((go_error + LstEntity) \<times> store) option" where
  "create_lst_scan e s entity [] = None"
| "create_lst_scan e s entity (existingEntity # rest) =
     (if strings_EqualFold e (le_Name existingEntity) (le_Name entity)
      then (case db_Exec s (sql_update_lst_entity_dir (le_ParentDir entity) (le_Id existingEntity)) of
              (Inl err, s1) \<Rightarrow> Some (Inl err, s1)
            | (Inr _, s1) \<Rightarrow>
                Some (Inr (existingEntity\<lparr>le_ParentDir := le_ParentDir entity\<rparr>), s1))
      else create_lst_scan e s entity rest)"

definition CreateOrUpdateLstEntityWithPathChange ::
  "env \<Rightarrow> store \<Rightarrow> LstEntity \<Rightarrow> (go_error + LstEntity) \<times> store" where
  "CreateOrUpdateLstEntityWithPathChange e s entity =
     (case filepath_Abs e (le_ParentDir entity) of
        Inl err \<Rightarrow> (Inl err, s)
      | Inr absPath \<Rightarrow>
          (let entity = entity\<lparr>le_ParentDir := absPath\<rparr> in
           case db_Select s (q_lst_entities_by_lid (le_LstId entity)) of
             (Inl err, s1) \<Rightarrow> (Inl err, s1)
           | (Inr entities, s1) \<Rightarrow>
               (case create_lst_scan e s1 entity entities of
                  Some r \<Rightarrow> r
                | None \<Rightarrow>
                    (case db_Exec s1 (sql_insert_lst_entity (le_LstId entity) (le_Name entity)
                                        (le_ParentDir entity)) of
                       (Inl err, s2) \<Rightarrow> (Inl err, s2)
                     | (Inr i, s2) \<Rightarrow> (Inr (entity\<lparr>le_Id := Some i\<rparr>), s2)))))"

subsection \<open>Concrete environments, stores and entities\<close>

text \<open>
  Paths are already absolute and are joined with a slash; \<open>env_files fs\<close> is the file
  system in which exactly the paths \<open>fs\<close> exist (error 2 is "no such file or
  directory").
\<close>

definition env_files :: "string list \<Rightarrow> env" where
  "env_files fs =
     \<lparr>filepath_Abs = Inr,
      filepath_Join = (\<lambda>d f. d @ ''/'' @ f),
      os_Stat = (\<lambda>p. if p \<in> set fs then None else Some (ErrOS 2)),
      strings_EqualFold = nocase_eq\<rparr>"

definition empty_store :: store where
  "empty_store =
     \<lparr>users = [], lsts = [], lst_entities = [], user_entities = [], user_links = [],
      foreign_keys = False, faults = []\<rparr>"

definition ue_row :: "int \<Rightarrow> uint64 \<Rightarrow> string \<Rightarrow> string \<Rightarrow> UserEntity" where
  "ue_row i uid name dir =
     \<lparr>ue_Id = Some i, ue_Uid = uid, ue_Name = name, ue_LatestReleaseTime = None,
      ue_ParentDir = dir, ue_MediaCount = None\<rparr>"

definition le_row :: "int \<Rightarrow> int64 \<Rightarrow> string \<Rightarrow> string \<Rightarrow> LstEntity" where
  "le_row i lid name dir = \<lparr>le_Id = Some i, le_LstId = lid, le_Name = name, le_ParentDir = dir\<rparr>"

definition store_one :: store where
  \<comment> \<open>account 42 is tracked at \<^verbatim>\<open>/data/X\<close>\<close>
  "store_one = empty_store\<lparr>user_entities := [ue_row 1 42 ''alice'' ''/data/X'']\<rparr>"

definition store_two :: store where
  \<comment> \<open>account 42 is tracked at \<^verbatim>\<open>/data/X\<close> and at \<^verbatim>\<open>/data/X2\<close>\<close>
  "store_two = empty_store\<lparr>user_entities :=
     [ue_row 1 42 ''alice'' ''/data/X'', ue_row 2 42 ''alice'' ''/data/X2'']\<rparr>"

definition store_old :: store where
  \<comment> \<open>account 7 is tracked at \<^verbatim>\<open>/old\<close>\<close>
  "store_old = empty_store\<lparr>user_entities := [ue_row 1 7 ''bob'' ''/old'']\<rparr>"

definition store_lst :: store where
  \<comment> \<open>list 3 is tracked at \<^verbatim>\<open>/a\<close>\<close>
  "store_lst = empty_store\<lparr>lst_entities := [le_row 1 3 ''Mutuals'' ''/a'']\<rparr>"

definition store_shared :: store where
  \<comment> \<open>accounts 7 and 42 are both tracked at \<^verbatim>\<open>/data/X\<close>\<close>
  "store_shared = empty_store\<lparr>user_entities :=
     [ue_row 1 7 ''bob'' ''/data/X'', ue_row 2 42 ''alice'' ''/data/X'']\<rparr>"

definition store_case :: store where
  \<comment> \<open>account 42 is tracked at \<^verbatim>\<open>/Data/X\<close> and at \<^verbatim>\<open>/other\<close>\<close>
  "store_case = empty_store\<lparr>user_entities :=
     [ue_row 1 42 ''alice'' ''/Data/X'', ue_row 2 42 ''alice'' ''/other'']\<rparr>"

definition candidate_user :: UserEntity where
  "candidate_user =
     \<lparr>ue_Id = None, ue_Uid = 42, ue_Name = ''alice'', ue_LatestReleaseTime = Some 1700000000,
      ue_ParentDir = ''/data/X'', ue_MediaCount = Some 12\<rparr>"

definition candidate_lst :: LstEntity where
  "candidate_lst = \<lparr>le_Id = None, le_LstId = 3, le_Name = ''mutuals'', le_ParentDir = ''/b''\<rparr>"

text \<open>The marker file \<^verbatim>\<open>.user\<close> exists directly inside the directory \<open>d\<close>.\<close>

abbreviation marker_in :: "env \<Rightarrow> string \<Rightarrow> bool" where
  "marker_in e d \<equiv> os_Stat e (filepath_Join e d ''.user'') = None"

section \<open>Properties\<close>

subsection \<open>Statements on a store that raises no fault\<close>

lemma next_fault_none: "faults s = [] \<Longrightarrow> next_fault s = (None, s)"
  by (simp add: next_fault_def)

lemma db_Select_ok: "faults s = [] \<Longrightarrow> db_Select s q = (Inr (q s), s)"
  by (simp add: db_Select_def next_fault_none)

lemma db_Get_ok:
  "faults s = [] \<Longrightarrow>
   db_Get s q = (case q s of [] \<Rightarrow> (Inl ErrNoRows, s) | r # _ \<Rightarrow> (Inr r, s))"
  by (simp add: db_Get_def next_fault_none)

lemma db_Exec_ok:
  "faults s = [] \<Longrightarrow>
   db_Exec s stmt = (case stmt s of Inl e \<Rightarrow> (Inl e, s) | Inr (r, s') \<Rightarrow> (Inr r, s'))"
  by (simp add: db_Exec_def next_fault_none)

subsection \<open>Rows, primary keys and the uniqueness constraint\<close>

lemma pk_same_row:
  "distinct (map f xs) \<Longrightarrow> x \<in> set xs \<Longrightarrow> y \<in> set xs \<Longrightarrow> f x = f y \<Longrightarrow> x = y"
  by (meson distinct_map inj_onD)

lemma first_of_filter: "filter P xs = r # rest \<Longrightarrow> r \<in> set xs \<and> P r"
proof -
  assume h: "filter P xs = r # rest"
  have "r \<in> set (filter P xs)" by (simp add: h)
  then show ?thesis by simp
qed

lemma ue_update_accepted:
  assumes "distinct (map ue_Id (user_entities s))"
    and "r \<in> set (user_entities s)" and "ue_Id r = Some i"
    and "\<not> ue_taken (user_entities s) (Some i) (ue_Uid r) p"
  shows "sql_update_user_entity_dir p (Some i) s =
     Inr ((), s\<lparr>user_entities :=
       map (\<lambda>x. if ue_Id x = Some i then x\<lparr>ue_ParentDir := p\<rparr> else x) (user_entities s)\<rparr>)"
proof -
  have "\<not> list_ex (\<lambda>x. ue_Id x = Some i \<and> ue_taken (user_entities s) (Some i) (ue_Uid x) p)
          (user_entities s)"
  proof
    assume "list_ex (\<lambda>x. ue_Id x = Some i \<and> ue_taken (user_entities s) (Some i) (ue_Uid x) p)
          (user_entities s)"
    then obtain x where x: "x \<in> set (user_entities s)" "ue_Id x = Some i"
      "ue_taken (user_entities s) (Some i) (ue_Uid x) p"
      by (auto simp: list_ex_iff)
    from pk_same_row [OF assms(1) x(1) assms(2)] x(2) assms(3) have "x = r" by simp
    with x(3) assms(4) show False by simp
  qed
  then show ?thesis by (simp add: sql_update_user_entity_dir_def)
qed

lemma ue_rows_of_uid_map:
  "(\<And>x. ue_Uid (f x) = ue_Uid x) \<Longrightarrow>
   filter (\<lambda>r. ue_Uid r = uid) (map f xs) = map f (filter (\<lambda>r. ue_Uid r = uid) xs)"
  by (induction xs) auto

lemma no_exact_not_taken:
  "q_user_entities_by_uid_dir uid p s = [] \<Longrightarrow> \<not> ue_taken (user_entities s) rid uid p"
  by (auto simp: q_user_entities_by_uid_dir_def ue_taken_def list_ex_iff filter_empty_conv)

subsection \<open>The loops\<close>

lemma locate_user_scan_none:
  "list_all (\<lambda>x. \<not> marker_in e (ue_ParentDir x)) rows \<Longrightarrow>
   locate_user_scan e s p rows = (Inr None, s)"
  by (induction rows) (simp_all del: not_None_eq)

lemma locate_user_scan_find:
  "find (\<lambda>x. marker_in e (ue_ParentDir x)) rows = Some r \<Longrightarrow>
   locate_user_scan e s p rows =
     (Inr (Some (r\<lparr>ue_ParentDir := p\<rparr>)),
      snd (db_Exec s (sql_update_user_entity_dir p (ue_Id r))))"
  by (induction rows) (auto split: if_splits simp del: not_None_eq)

lemma create_user_scan_none:
  "list_all (\<lambda>x. \<not> marker_in e (ue_ParentDir x)) rows \<Longrightarrow>
   create_user_scan e s ent rows = None"
  by (induction rows) (simp_all del: not_None_eq)

subsection \<open>Marker-confirmed relocation\<close>

text \<open>
  C1, as stated, fails: when the marker file is inside the canonical directory and
  account 42 has two rows, the second of which already stores that directory, the
  \<^verbatim>\<open>UPDATE\<close> of the first row is rejected by \<^verbatim>\<open>UNIQUE (user_id, parent_dir)\<close>. The
  call returns the first row with the new directory, and the store still holds
  \<^verbatim>\<open>/data/X\<close> for it.
\<close>

theorem C1_counterexample:
  "q_user_entities_by_uid 42 store_two =
     [ue_row 1 42 ''alice'' ''/data/X'', ue_row 2 42 ''alice'' ''/data/X2'']
   \<and> filepath_Abs (env_files [''/data/X2/.user'']) ''/data/X2'' = Inr ''/data/X2''
   \<and> marker_in (env_files [''/data/X2/.user'']) ''/data/X2''
   \<and> fst (LocateUserEntity (env_files [''/data/X2/.user'']) store_two 42 ''/data/X2'') =
       Inr (Some (ue_row 1 42 ''alice'' ''/data/X2''))
   \<and> q_user_entities_by_id 1
        (snd (LocateUserEntity (env_files [''/data/X2/.user'']) store_two 42 ''/data/X2'')) =
       [ue_row 1 42 ''alice'' ''/data/X'']"
  by code_simp

text \<open>
  C1, amended: if the marker file exists directly inside the canonical directory \<open>p\<close>,
  the store holds at least one row for \<open>uid\<close>, no other row of \<open>uid\<close> already stores
  \<open>p\<close> and the store raises no fault, then \<^verbatim>\<open>LocateUserEntity\<close> rewrites the directory
  of the first row returned by the store (the row with that id, and no other) to \<open>p\<close>
  and returns that row with the same id and \<^verbatim>\<open>ParentDir\<close> \<open>p\<close>; no row is inserted: the
  number of rows of \<open>uid\<close> is unchanged. Row ids are distinct (\<^verbatim>\<open>PRIMARY KEY (id)\<close>).
\<close>

theorem C1_marker_relocation:
  assumes "filepath_Abs e dir = Inr p"
    and "marker_in e p"
    and "faults s = []"
    and "distinct (map ue_Id (user_entities s))"
    and "q_user_entities_by_uid uid s = r # rest"
    and "ue_Id r = Some i"
    and "\<not> ue_taken (user_entities s) (Some i) uid p"
  shows "LocateUserEntity e s uid dir =
           (Inr (Some (r\<lparr>ue_ParentDir := p\<rparr>)),
            s\<lparr>user_entities :=
                map (\<lambda>x. if ue_Id x = Some i then x\<lparr>ue_ParentDir := p\<rparr> else x)
                  (user_entities s)\<rparr>)
         \<and> length (q_user_entities_by_uid uid (snd (LocateUserEntity e s uid dir))) =
             length (q_user_entities_by_uid uid s)
         \<and> r\<lparr>ue_ParentDir := p\<rparr> \<in> set (user_entities (snd (LocateUserEntity e s uid dir)))"
proof -
  from assms(5) have r: "r \<in> set (user_entities s)" "ue_Uid r = uid"
    using first_of_filter [of "\<lambda>r. ue_Uid r = uid" "user_entities s" r rest]
    by (simp_all add: q_user_entities_by_uid_def)
  have upd: "sql_update_user_entity_dir p (Some i) s =
     Inr ((), s\<lparr>user_entities :=
       map (\<lambda>x. if ue_Id x = Some i then x\<lparr>ue_ParentDir := p\<rparr> else x) (user_entities s)\<rparr>)"
    using ue_update_accepted [OF assms(4) r(1) assms(6)] assms(7) r(2) by simp
  have res: "LocateUserEntity e s uid dir =
           (Inr (Some (r\<lparr>ue_ParentDir := p\<rparr>)),
            s\<lparr>user_entities :=
                map (\<lambda>x. if ue_Id x = Some i then x\<lparr>ue_ParentDir := p\<rparr> else x)
                  (user_entities s)\<rparr>)"
    using assms(1,2,3,5,6) upd
    by (simp add: LocateUserEntity_def db_Select_ok db_Exec_ok)
  have cnt: "length (q_user_entities_by_uid uid (snd (LocateUserEntity e s uid dir))) =
             length (q_user_entities_by_uid uid s)"
    unfolding res by (simp add: q_user_entities_by_uid_def ue_rows_of_uid_map)
  have mem: "r\<lparr>ue_ParentDir := p\<rparr> \<in> set (user_entities (snd (LocateUserEntity e s uid dir)))"
    unfolding res using r(1) assms(6) by (auto simp: image_iff intro!: bexI [of _ r])
  from res cnt mem show ?thesis by blast
qed

text \<open>
  The example of the specification: account 42 is tracked at \<^verbatim>\<open>/data/X\<close>, the marker
  file is at \<^verbatim>\<open>/data/X2\<close>, and \<^verbatim>\<open>locate(42, "/data/X2")\<close> moves the one row.
\<close>

theorem C1_marker_relocation_witness:
  "LocateUserEntity (env_files [''/data/X2/.user'']) store_one 42 ''/data/X2'' =
     (Inr (Some (ue_row 1 42 ''alice'' ''/data/X2'')),
      store_one\<lparr>user_entities := [ue_row 1 42 ''alice'' ''/data/X2'']\<rparr>)
   \<and> length (q_user_entities_by_uid 42
        (snd (LocateUserEntity (env_files [''/data/X2/.user'']) store_one 42 ''/data/X2''))) = 1"
proof -
  have h1: "filepath_Abs (env_files [''/data/X2/.user'']) ''/data/X2'' = Inr ''/data/X2''"
    by (simp add: env_files_def)
  have h2: "marker_in (env_files [''/data/X2/.user'']) ''/data/X2''"
    by (simp add: env_files_def)
  have h3: "faults store_one = []"
    by (simp add: store_one_def empty_store_def)
  have h4: "distinct (map ue_Id (user_entities store_one))"
    by (simp add: store_one_def empty_store_def)
  have h5: "q_user_entities_by_uid 42 store_one = ue_row 1 42 ''alice'' ''/data/X'' # []"
    by (simp add: q_user_entities_by_uid_def store_one_def empty_store_def ue_row_def)
  have h6: "ue_Id (ue_row 1 42 ''alice'' ''/data/X'') = Some 1"
    by (simp add: ue_row_def)
  have h7: "\<not> ue_taken (user_entities store_one) (Some 1) 42 ''/data/X2''"
    by (simp add: ue_taken_def store_one_def empty_store_def ue_row_def)
  have res: "LocateUserEntity (env_files [''/data/X2/.user'']) store_one 42 ''/data/X2'' =
     (Inr (Some (ue_row 1 42 ''alice'' ''/data/X2'')),
      store_one\<lparr>user_entities := [ue_row 1 42 ''alice'' ''/data/X2'']\<rparr>)"
    using C1_marker_relocation [OF h1 h2 h3 h4 h5 h6 h7, THEN conjunct1]
    by (simp add: store_one_def empty_store_def ue_row_def)
  show ?thesis
    unfolding res by (simp add: q_user_entities_by_uid_def ue_row_def)
qed

subsection \<open>Fallback marker scan\<close>

text \<open>
  C2, as stated, fails: its conditions say nothing of the store's own errors. Account 7
  is tracked at \<^verbatim>\<open>/old\<close>, which holds the marker file, \<^verbatim>\<open>/new\<close> does not, and no
  row matches \<open>(7, /new)\<close>; the store answers the two queries and fails the
  \<^verbatim>\<open>UPDATE\<close> (the third statement of the call). The stored directory of the row is
  still \<^verbatim>\<open>/old\<close> after the call.
\<close>

theorem C2_counterexample:
  "\<not> marker_in (env_files [''/old/.user'']) ''/new''
   \<and> q_user_entities_by_uid_dir 7 ''/new'' (store_old\<lparr>faults := [None, None, Some 5]\<rparr>) = []
   \<and> find (\<lambda>x. marker_in (env_files [''/old/.user'']) (ue_ParentDir x))
        (q_user_entities_by_uid 7 (store_old\<lparr>faults := [None, None, Some 5]\<rparr>)) =
       Some (ue_row 1 7 ''bob'' ''/old'')
   \<and> LocateUserEntity (env_files [''/old/.user''])
        (store_old\<lparr>faults := [None, None, Some 5]\<rparr>) 7 ''/new'' =
       (Inr (Some (ue_row 1 7 ''bob'' ''/new'')), store_old)
   \<and> user_entities store_old = [ue_row 1 7 ''bob'' ''/old'']"
  by code_simp

text \<open>
  C2, amended: if the marker file is absent from the canonical directory \<open>p\<close>, no
  stored row matches \<open>(uid, p)\<close>, \<open>r\<close> is the first row of \<open>uid\<close> whose stored
  directory holds the marker file, and the store raises no error, then
  \<^verbatim>\<open>LocateUserEntity\<close> rewrites the directory of that row to \<open>p\<close> and returns it; the
  number of rows of \<open>uid\<close> is unchanged, so exactly one remains when exactly one
  existed. Row ids are distinct (\<^verbatim>\<open>PRIMARY KEY (id)\<close>).
\<close>

theorem C2_fallback_marker_scan:
  assumes "filepath_Abs e dir = Inr p"
    and "\<not> marker_in e p"
    and "faults s = []"
    and "distinct (map ue_Id (user_entities s))"
    and "q_user_entities_by_uid_dir uid p s = []"
    and "find (\<lambda>x. marker_in e (ue_ParentDir x)) (q_user_entities_by_uid uid s) = Some r"
    and "ue_Id r = Some i"
  shows "LocateUserEntity e s uid dir =
           (Inr (Some (r\<lparr>ue_ParentDir := p\<rparr>)),
            s\<lparr>user_entities :=
                map (\<lambda>x. if ue_Id x = Some i then x\<lparr>ue_ParentDir := p\<rparr> else x)
                  (user_entities s)\<rparr>)
         \<and> length (q_user_entities_by_uid uid (snd (LocateUserEntity e s uid dir))) =
             length (q_user_entities_by_uid uid s)"
proof -
  from assms(6) have "r \<in> set (q_user_entities_by_uid uid s)"
    by (auto simp: find_Some_iff)
  then have r: "r \<in> set (user_entities s)" "ue_Uid r = uid"
    by (simp_all add: q_user_entities_by_uid_def)
  have upd: "sql_update_user_entity_dir p (Some i) s =
     Inr ((), s\<lparr>user_entities :=
       map (\<lambda>x. if ue_Id x = Some i then x\<lparr>ue_ParentDir := p\<rparr> else x) (user_entities s)\<rparr>)"
    using ue_update_accepted [OF assms(4) r(1) assms(7)] no_exact_not_taken [OF assms(5)] r(2)
    by simp
  have res: "LocateUserEntity e s uid dir =
           (Inr (Some (r\<lparr>ue_ParentDir := p\<rparr>)),
            s\<lparr>user_entities :=
                map (\<lambda>x. if ue_Id x = Some i then x\<lparr>ue_ParentDir := p\<rparr> else x)
                  (user_entities s)\<rparr>)"
    using assms(1,2,3,5,7) upd locate_user_scan_find [OF assms(6), of s p]
    by (simp add: LocateUserEntity_def locate_user_rest_def db_Get_ok db_Select_ok db_Exec_ok
        del: not_None_eq)
  have cnt: "length (q_user_entities_by_uid uid (snd (LocateUserEntity e s uid dir))) =
             length (q_user_entities_by_uid uid s)"
    unfolding res by (simp add: q_user_entities_by_uid_def ue_rows_of_uid_map)
  from res cnt show ?thesis by blast
qed

text \<open>
  The example of the specification: account 7 is tracked at \<^verbatim>\<open>/old\<close>, which still
  holds the marker file, and \<^verbatim>\<open>locate(7, "/new")\<close> moves the row to \<^verbatim>\<open>/new\<close>.
\<close>

theorem C2_fallback_marker_scan_witness:
  "LocateUserEntity (env_files [''/old/.user'']) store_old 7 ''/new'' =
     (Inr (Some (ue_row 1 7 ''bob'' ''/new'')),
      store_old\<lparr>user_entities := [ue_row 1 7 ''bob'' ''/new'']\<rparr>)
   \<and> length (q_user_entities_by_uid 7
        (snd (LocateUserEntity (env_files [''/old/.user'']) store_old 7 ''/new''))) = 1"
proof -
  have h1: "filepath_Abs (env_files [''/old/.user'']) ''/new'' = Inr ''/new''"
    by (simp add: env_files_def)
  have h2: "\<not> marker_in (env_files [''/old/.user'']) ''/new''"
    by (simp add: env_files_def)
  have h3: "faults store_old = []"
    by (simp add: store_old_def empty_store_def)
  have h4: "distinct (map ue_Id (user_entities store_old))"
    by (simp add: store_old_def empty_store_def)
  have h5: "q_user_entities_by_uid_dir 7 ''/new'' store_old = []"
    by code_simp
  have h6: "find (\<lambda>x. marker_in (env_files [''/old/.user'']) (ue_ParentDir x))
      (q_user_entities_by_uid 7 store_old) = Some (ue_row 1 7 ''bob'' ''/old'')"
    by (simp add: q_user_entities_by_uid_def store_old_def empty_store_def ue_row_def
        env_files_def)
  have h7: "ue_Id (ue_row 1 7 ''bob'' ''/old'') = Some 1"
    by (simp add: ue_row_def)
  have res: "LocateUserEntity (env_files [''/old/.user'']) store_old 7 ''/new'' =
     (Inr (Some (ue_row 1 7 ''bob'' ''/new'')),
      store_old\<lparr>user_entities := [ue_row 1 7 ''bob'' ''/new'']\<rparr>)"
    using C2_fallback_marker_scan [OF h1 h2 h3 h4 h5 h6 h7, THEN conjunct1]
    by (simp add: store_old_def empty_store_def ue_row_def)
  show ?thesis
    unfolding res by (simp add: q_user_entities_by_uid_def ue_row_def)
qed

subsection \<open>Idempotent exact match\<close>

lemma filter_of_find: "find P xs = Some r \<Longrightarrow> \<exists>rest. filter P xs = r # rest"
  by (induction xs) (auto split: if_splits)

text \<open>
  C3: if \<open>r\<close> is the stored row of account \<open>uid\<close> whose directory equals the
  canonical directory \<open>p\<close> under the \<^verbatim>\<open>NOCASE\<close> collation (the first such row of the
  table; the schema allows one) and the marker file is not inside \<open>p\<close> (in particular
  when no directory at all holds a marker file), then \<^verbatim>\<open>LocateUserEntity\<close> returns
  exactly that row, as stored, and leaves the store as it was: no update, no new row.
  The store raises no fault.
\<close>

theorem C3_idempotent_exact_match:
  assumes "filepath_Abs e dir = Inr p"
    and "\<not> marker_in e p"
    and "faults s = []"
    and "find (\<lambda>x. ue_Uid x = uid \<and> nocase_eq (ue_ParentDir x) p) (user_entities s) = Some r"
  shows "LocateUserEntity e s uid dir = (Inr (Some r), s)
       \<and> r \<in> set (user_entities s) \<and> ue_Uid r = uid \<and> nocase_eq (ue_ParentDir r) p"
proof -
  from filter_of_find [OF assms(4)] obtain rest where
    "q_user_entities_by_uid_dir uid p s = r # rest"
    by (auto simp: q_user_entities_by_uid_dir_def)
  with assms(1,2,3) have res: "LocateUserEntity e s uid dir = (Inr (Some r), s)"
    by (simp add: LocateUserEntity_def locate_user_rest_def db_Get_ok del: not_None_eq)
  from assms(4) have "r \<in> set (user_entities s) \<and> ue_Uid r = uid \<and> nocase_eq (ue_ParentDir r) p"
    by (auto simp: find_Some_iff)
  with res show ?thesis by blast
qed

text \<open>
  Accounts 7 and 42 are both tracked at \<^verbatim>\<open>/data/X\<close>, the row of account 7 first; no
  marker file anywhere. \<^verbatim>\<open>locate(42, "/data/X")\<close> returns the row of account 42.
\<close>

theorem C3_idempotent_exact_match_witness:
  "LocateUserEntity (env_files []) store_shared 42 ''/data/X'' =
     (Inr (Some (ue_row 2 42 ''alice'' ''/data/X'')), store_shared)
   \<and> ue_row 2 42 ''alice'' ''/data/X'' \<in> set (user_entities store_shared)
   \<and> ue_Uid (ue_row 2 42 ''alice'' ''/data/X'') = 42
   \<and> nocase_eq (ue_ParentDir (ue_row 2 42 ''alice'' ''/data/X'')) ''/data/X''"
proof -
  have h1: "filepath_Abs (env_files []) ''/data/X'' = Inr ''/data/X''"
    by (simp add: env_files_def)
  have h2: "\<not> marker_in (env_files []) ''/data/X''"
    by (simp add: env_files_def)
  have h3: "faults store_shared = []"
    by (simp add: store_shared_def empty_store_def)
  have h4: "find (\<lambda>x. ue_Uid x = 42 \<and> nocase_eq (ue_ParentDir x) ''/data/X'')
      (user_entities store_shared) = Some (ue_row 2 42 ''alice'' ''/data/X'')"
    by code_simp
  show ?thesis by (rule C3_idempotent_exact_match [OF h1 h2 h3 h4])
qed

subsection \<open>The create path has no exact-match phase\<close>

text \<open>
  C4, as stated, fails: \<^verbatim>\<open>CreateOrUpdateUserEntityWithPathChange\<close> never looks the pair
  \<open>(user_id, parent_dir)\<close> up. With account 42 stored at \<^verbatim>\<open>/data/X\<close> and no marker
  file anywhere it runs the \<^verbatim>\<open>INSERT\<close>, which the store rejects, and the call returns
  that error, not the stored row.
\<close>

theorem C4_counterexample:
  "q_user_entities_by_uid_dir (ue_Uid candidate_user) ''/data/X'' store_one =
     [ue_row 1 42 ''alice'' ''/data/X'']
   \<and> filepath_Abs (env_files []) (ue_ParentDir candidate_user) = Inr ''/data/X''
   \<and> CreateOrUpdateUserEntityWithPathChange (env_files []) store_one candidate_user ''/data'' =
       (Inl ErrUnique, store_one)"
  by code_simp

text \<open>
  C4, amended: for a candidate whose (account id, canonical directory) pair already
  has a stored row, when no marker file exists at the canonical directory or at any
  stored directory of the account, \<^verbatim>\<open>CreateOrUpdateUserEntityWithPathChange\<close> returns the
  error of the \<^verbatim>\<open>UNIQUE (user_id, parent_dir)\<close> constraint; no row is inserted and the
  store is unchanged. The store raises no fault.
\<close>

theorem C4_create_exact_pair_rejected:
  assumes "filepath_Abs e (ue_ParentDir ent) = Inr p"
    and "faults s = []"
    and "q_user_entities_by_uid_dir (ue_Uid ent) p s \<noteq> []"
    and "\<not> marker_in e p"
    and "list_all (\<lambda>x. \<not> marker_in e (ue_ParentDir x)) (q_user_entities_by_uid (ue_Uid ent) s)"
  shows "CreateOrUpdateUserEntityWithPathChange e s ent rootPath = (Inl ErrUnique, s)"
proof -
  from assms(3) have "list_ex (\<lambda>r. ue_Uid r = ue_Uid ent \<and> nocase_eq (ue_ParentDir r) p)
      (user_entities s)"
    by (auto simp: q_user_entities_by_uid_dir_def list_ex_iff filter_empty_conv)
  then have ins: "sql_insert_user_entity (ue_Uid ent) (ue_Name ent) p s = Inl ErrUnique"
    by (simp add: sql_insert_user_entity_def)
  show ?thesis
    using assms(1,2,4) ins create_user_scan_none [OF assms(5), of s "ent\<lparr>ue_ParentDir := p\<rparr>"]
    by (simp add: CreateOrUpdateUserEntityWithPathChange_def create_user_rest_def
        db_Select_ok db_Exec_ok del: not_None_eq)
qed

text \<open>
  The stored directory \<^verbatim>\<open>/data/X\<close> and the candidate \<^verbatim>\<open>/DATA/x\<close> are the same pair
  under the \<^verbatim>\<open>NOCASE\<close> collation.
\<close>

theorem C4_create_exact_pair_rejected_witness:
  "CreateOrUpdateUserEntityWithPathChange (env_files []) store_one
      (candidate_user\<lparr>ue_ParentDir := ''/DATA/x''\<rparr>) ''/data'' = (Inl ErrUnique, store_one)"
proof -
  have h1: "filepath_Abs (env_files []) (ue_ParentDir (candidate_user\<lparr>ue_ParentDir := ''/DATA/x''\<rparr>))
      = Inr ''/DATA/x''"
    by (simp add: env_files_def)
  have h2: "faults store_one = []"
    by (simp add: store_one_def empty_store_def)
  have h3: "q_user_entities_by_uid_dir (ue_Uid (candidate_user\<lparr>ue_ParentDir := ''/DATA/x''\<rparr>))
      ''/DATA/x'' store_one \<noteq> []"
    by code_simp
  have h4: "\<not> marker_in (env_files []) ''/DATA/x''"
    by (simp add: env_files_def)
  have h5: "list_all (\<lambda>x. \<not> marker_in (env_files []) (ue_ParentDir x))
      (q_user_entities_by_uid (ue_Uid (candidate_user\<lparr>ue_ParentDir := ''/DATA/x''\<rparr>)) store_one)"
    by (simp add: env_files_def list_all_iff)
  show ?thesis by (rule C4_create_exact_pair_rejected [OF h1 h2 h3 h4 h5])
qed

subsection \<open>List entities: the uniqueness constraint and the loop\<close>

text \<open>
  The counterparts for \<^verbatim>\<open>lst_entities\<close> of the facts on \<^verbatim>\<open>user_entities\<close> above.
\<close>

lemma le_update_accepted:
  assumes "distinct (map le_Id (lst_entities s))"
    and "r \<in> set (lst_entities s)" and "le_Id r = Some i"
    and "\<not> le_taken (lst_entities s) (Some i) (le_LstId r) p"
  shows "sql_update_lst_entity_dir p (Some i) s =
     Inr ((), s\<lparr>lst_entities :=
       map (\<lambda>x. if le_Id x = Some i then x\<lparr>le_ParentDir := p\<rparr> else x) (lst_entities s)\<rparr>)"
proof -
  have "\<not> list_ex (\<lambda>x. le_Id x = Some i \<and> le_taken (lst_entities s) (Some i) (le_LstId x) p)
          (lst_entities s)"
  proof
    assume "list_ex (\<lambda>x. le_Id x = Some i \<and> le_taken (lst_entities s) (Some i) (le_LstId x) p)
          (lst_entities s)"
    then obtain x where x: "x \<in> set (lst_entities s)" "le_Id x = Some i"
      "le_taken (lst_entities s) (Some i) (le_LstId x) p"
      by (auto simp: list_ex_iff)
    from pk_same_row [OF assms(1) x(1) assms(2)] x(2) assms(3) have "x = r" by simp
    with x(3) assms(4) show False by simp
  qed
  then show ?thesis by (simp add: sql_update_lst_entity_dir_def)
qed

lemma no_exact_not_taken_lst:
  "q_lst_entities_by_lid_dir lid p s = [] \<Longrightarrow> \<not> le_taken (lst_entities s) rid lid p"
  by (auto simp: q_lst_entities_by_lid_dir_def le_taken_def list_ex_iff filter_empty_conv)

lemma create_lst_scan_none:
  "find (\<lambda>x. strings_EqualFold e (le_Name x) (le_Name ent)) rows = None \<Longrightarrow>
   create_lst_scan e s ent rows = None"
  by (induction rows) (simp_all split: if_splits)

lemma create_lst_scan_find:
  "find (\<lambda>x. strings_EqualFold e (le_Name x) (le_Name ent)) rows = Some r \<Longrightarrow>
   create_lst_scan e s ent rows =
     (case db_Exec s (sql_update_lst_entity_dir (le_ParentDir ent) (le_Id r)) of
        (Inl err, s1) \<Rightarrow> Some (Inl err, s1)
      | (Inr _, s1) \<Rightarrow> Some (Inr (r\<lparr>le_ParentDir := le_ParentDir ent\<rparr>), s1))"
  by (induction rows) (auto split: if_splits)

subsection \<open>Name-independent fallback of the list locate path\<close>

text \<open>
  C5, as stated, fails: its conditions say nothing of the store's own errors. List 3 is
  tracked at \<^verbatim>\<open>/a\<close>, the directory \<^verbatim>\<open>/b\<close> exists and no row matches \<open>(3, /b)\<close>;
  the store answers the two queries and fails the \<^verbatim>\<open>UPDATE\<close> (the third statement
  of the call). The stored directory of the row is still \<^verbatim>\<open>/a\<close> after the call.
\<close>

theorem C5_counterexample:
  "q_lst_entities_by_lid_dir 3 ''/b'' (store_lst\<lparr>faults := [None, None, Some 5]\<rparr>) = []
   \<and> os_Stat (env_files [''/b'']) ''/b'' = None
   \<and> q_lst_entities_by_lid 3 (store_lst\<lparr>faults := [None, None, Some 5]\<rparr>) =
       [le_row 1 3 ''Mutuals'' ''/a'']
   \<and> LocateLstEntity (env_files [''/b'']) (store_lst\<lparr>faults := [None, None, Some 5]\<rparr>) 3 ''/b'' =
       (Inr (Some (le_row 1 3 ''Mutuals'' ''/b'')), store_lst)
   \<and> lst_entities store_lst = [le_row 1 3 ''Mutuals'' ''/a'']"
  by code_simp

text \<open>
  C5, amended: if no stored row matches \<open>(lid, p)\<close> for the canonical directory \<open>p\<close>,
  the directory \<open>p\<close> exists on disk (\<^verbatim>\<open>os.Stat\<close> returns no error), at least one row
  is stored for \<open>lid\<close>, and the store raises no error, then \<^verbatim>\<open>LocateLstEntity\<close> takes
  the first stored row, whatever its name, rewrites its directory to \<open>p\<close> and returns
  it. No hypothesis mentions a name. Row ids are distinct (\<^verbatim>\<open>PRIMARY KEY (id)\<close>).
\<close>

theorem C5_list_locate_fallback:
  assumes "filepath_Abs e dir = Inr p"
    and "faults s = []"
    and "distinct (map le_Id (lst_entities s))"
    and "q_lst_entities_by_lid_dir lid p s = []"
    and "os_Stat e p = None"
    and "q_lst_entities_by_lid lid s = r # rest"
    and "le_Id r = Some i"
  shows "LocateLstEntity e s lid dir =
           (Inr (Some (r\<lparr>le_ParentDir := p\<rparr>)),
            s\<lparr>lst_entities :=
                map (\<lambda>x. if le_Id x = Some i then x\<lparr>le_ParentDir := p\<rparr> else x)
                  (lst_entities s)\<rparr>)"
proof -
  from assms(6) have r: "r \<in> set (lst_entities s)" "le_LstId r = lid"
    using first_of_filter [of "\<lambda>r. le_LstId r = lid" "lst_entities s" r rest]
    by (simp_all add: q_lst_entities_by_lid_def)
  have upd: "sql_update_lst_entity_dir p (Some i) s =
     Inr ((), s\<lparr>lst_entities :=
       map (\<lambda>x. if le_Id x = Some i then x\<lparr>le_ParentDir := p\<rparr> else x) (lst_entities s)\<rparr>)"
    using le_update_accepted [OF assms(3) r(1) assms(7)] no_exact_not_taken_lst [OF assms(4)] r(2)
    by simp
  show ?thesis
    using assms(1,2,4,5,6,7) upd
    by (simp add: LocateLstEntity_def db_Get_ok db_Select_ok db_Exec_ok)
qed

text \<open>
  The example of the specification: list 3 is tracked at \<^verbatim>\<open>/a\<close>, the directory
  \<^verbatim>\<open>/b\<close> exists.
\<close>

theorem C5_list_locate_fallback_witness:
  "LocateLstEntity (env_files [''/b'']) store_lst 3 ''/b'' =
     (Inr (Some (le_row 1 3 ''Mutuals'' ''/b'')),
      store_lst\<lparr>lst_entities := [le_row 1 3 ''Mutuals'' ''/b'']\<rparr>)"
proof -
  have h1: "filepath_Abs (env_files [''/b'']) ''/b'' = Inr ''/b''"
    by (simp add: env_files_def)
  have h2: "faults store_lst = []"
    by (simp add: store_lst_def empty_store_def)
  have h3: "distinct (map le_Id (lst_entities store_lst))"
    by (simp add: store_lst_def empty_store_def)
  have h4: "q_lst_entities_by_lid_dir 3 ''/b'' store_lst = []"
    by code_simp
  have h5: "os_Stat (env_files [''/b'']) ''/b'' = None"
    by (simp add: env_files_def)
  have h6: "q_lst_entities_by_lid 3 store_lst = le_row 1 3 ''Mutuals'' ''/a'' # []"
    by (simp add: q_lst_entities_by_lid_def store_lst_def empty_store_def le_row_def)
  have h7: "le_Id (le_row 1 3 ''Mutuals'' ''/a'') = Some 1"
    by (simp add: le_row_def)
  show ?thesis
    using C5_list_locate_fallback [OF h1 h2 h3 h4 h5 h6 h7]
    by (simp add: store_lst_def empty_store_def le_row_def)
qed

subsection \<open>Fallback of the list create path\<close>

text \<open>
  C6, as stated, fails: \<^verbatim>\<open>CreateOrUpdateLstEntityWithPathChange\<close> never calls
  \<^verbatim>\<open>os.Stat\<close>. In a file system where \<^verbatim>\<open>/b\<close> does not exist, the row of list 3
  named \<^verbatim>\<open>Mutuals\<close> is accepted for the candidate named \<^verbatim>\<open>mutuals\<close> and moved to
  \<^verbatim>\<open>/b\<close>.
\<close>

theorem C6_counterexample:
  "os_Stat (env_files []) ''/b'' = Some (ErrOS 2)
   \<and> filepath_Abs (env_files []) (le_ParentDir candidate_lst) = Inr ''/b''
   \<and> q_lst_entities_by_lid_dir (le_LstId candidate_lst) ''/b'' store_lst = []
   \<and> CreateOrUpdateLstEntityWithPathChange (env_files []) store_lst candidate_lst =
       (Inr (le_row 1 3 ''Mutuals'' ''/b''),
        store_lst\<lparr>lst_entities := [le_row 1 3 ''Mutuals'' ''/b'']\<rparr>)"
  by code_simp

text \<open>
  C6, amended: for a candidate list entity with no exact (list id, canonical directory)
  match stored, \<^verbatim>\<open>CreateOrUpdateLstEntityWithPathChange\<close> accepts an existing row of the
  list exactly when its name equals the candidate's name under \<^verbatim>\<open>strings.EqualFold\<close>,
  whether or not the canonical directory exists on disk: it takes the first such row,
  rewrites its directory to the canonical directory and returns it; when no row of the
  list has such a name, no existing row is touched and a new row is inserted. The
  store raises no fault and row ids are distinct (\<^verbatim>\<open>PRIMARY KEY (id)\<close>). No hypothesis
  mentions the file system.
\<close>

theorem C6_list_create_fallback:
  assumes "filepath_Abs e (le_ParentDir ent) = Inr p"
    and "faults s = []"
    and "distinct (map le_Id (lst_entities s))"
    and "q_lst_entities_by_lid_dir (le_LstId ent) p s = []"
  shows "(\<forall>r i. find (\<lambda>x. strings_EqualFold e (le_Name x) (le_Name ent))
                  (q_lst_entities_by_lid (le_LstId ent) s) = Some r \<and> le_Id r = Some i \<longrightarrow>
            CreateOrUpdateLstEntityWithPathChange e s ent =
              (Inr (r\<lparr>le_ParentDir := p\<rparr>),
               s\<lparr>lst_entities :=
                   map (\<lambda>x. if le_Id x = Some i then x\<lparr>le_ParentDir := p\<rparr> else x)
                     (lst_entities s)\<rparr>))
       \<and> (find (\<lambda>x. strings_EqualFold e (le_Name x) (le_Name ent))
              (q_lst_entities_by_lid (le_LstId ent) s) = None \<longrightarrow>
            CreateOrUpdateLstEntityWithPathChange e s ent =
              (Inr (ent\<lparr>le_Id := Some (next_rowid (map le_Id (lst_entities s))),
                         le_ParentDir := p\<rparr>),
               s\<lparr>lst_entities := lst_entities s @
                   [\<lparr>le_Id = Some (next_rowid (map le_Id (lst_entities s))),
                     le_LstId = le_LstId ent, le_Name = le_Name ent, le_ParentDir = p\<rparr>]\<rparr>))"
proof (intro conjI allI impI)
  fix r i
  assume h: "find (\<lambda>x. strings_EqualFold e (le_Name x) (le_Name ent))
      (q_lst_entities_by_lid (le_LstId ent) s) = Some r \<and> le_Id r = Some i"
  then have f: "find (\<lambda>x. strings_EqualFold e (le_Name x) (le_Name (ent\<lparr>le_ParentDir := p\<rparr>)))
      (q_lst_entities_by_lid (le_LstId ent) s) = Some r" and i: "le_Id r = Some i"
    by simp_all
  from h have "r \<in> set (q_lst_entities_by_lid (le_LstId ent) s)"
    by (auto simp: find_Some_iff)
  then have r: "r \<in> set (lst_entities s)" "le_LstId r = le_LstId ent"
    by (simp_all add: q_lst_entities_by_lid_def)
  have upd: "sql_update_lst_entity_dir p (Some i) s =
     Inr ((), s\<lparr>lst_entities :=
       map (\<lambda>x. if le_Id x = Some i then x\<lparr>le_ParentDir := p\<rparr> else x) (lst_entities s)\<rparr>)"
    using le_update_accepted [OF assms(3) r(1) i] no_exact_not_taken_lst [OF assms(4)] r(2)
    by simp
  show "CreateOrUpdateLstEntityWithPathChange e s ent =
      (Inr (r\<lparr>le_ParentDir := p\<rparr>),
       s\<lparr>lst_entities :=
           map (\<lambda>x. if le_Id x = Some i then x\<lparr>le_ParentDir := p\<rparr> else x) (lst_entities s)\<rparr>)"
    using assms(1,2) i upd create_lst_scan_find [OF f, of s]
    by (simp add: CreateOrUpdateLstEntityWithPathChange_def db_Select_ok db_Exec_ok)
next
  assume "find (\<lambda>x. strings_EqualFold e (le_Name x) (le_Name ent))
      (q_lst_entities_by_lid (le_LstId ent) s) = None"
  then have f: "find (\<lambda>x. strings_EqualFold e (le_Name x) (le_Name (ent\<lparr>le_ParentDir := p\<rparr>)))
      (q_lst_entities_by_lid (le_LstId ent) s) = None"
    by simp
  from assms(4) have "\<not> list_ex (\<lambda>r. le_LstId r = le_LstId ent \<and> nocase_eq (le_ParentDir r) p)
      (lst_entities s)"
    by (auto simp: q_lst_entities_by_lid_dir_def list_ex_iff filter_empty_conv)
  then have ins: "sql_insert_lst_entity (le_LstId ent) (le_Name ent) p s =
      Inr (next_rowid (map le_Id (lst_entities s)),
           s\<lparr>lst_entities := lst_entities s @
             [\<lparr>le_Id = Some (next_rowid (map le_Id (lst_entities s))),
               le_LstId = le_LstId ent, le_Name = le_Name ent, le_ParentDir = p\<rparr>]\<rparr>)"
    by (simp add: sql_insert_lst_entity_def Let_def)
  show "CreateOrUpdateLstEntityWithPathChange e s ent =
      (Inr (ent\<lparr>le_Id := Some (next_rowid (map le_Id (lst_entities s))), le_ParentDir := p\<rparr>),
       s\<lparr>lst_entities := lst_entities s @
           [\<lparr>le_Id = Some (next_rowid (map le_Id (lst_entities s))),
             le_LstId = le_LstId ent, le_Name = le_Name ent, le_ParentDir = p\<rparr>]\<rparr>)"
    using assms(1,2) ins create_lst_scan_none [OF f, of s]
    by (simp add: CreateOrUpdateLstEntityWithPathChange_def db_Select_ok db_Exec_ok)
qed


text \<open>
  Both cases on the store that tracks list 3 (named \<^verbatim>\<open>Mutuals\<close>) at \<^verbatim>\<open>/a\<close>: the
  candidate named \<^verbatim>\<open>mutuals\<close> moves the row, the candidate named \<^verbatim>\<open>Friends\<close> gets a
  new row.
\<close>

theorem C6_list_create_fallback_witness:
  "CreateOrUpdateLstEntityWithPathChange (env_files [''/b'']) store_lst candidate_lst =
     (Inr (le_row 1 3 ''Mutuals'' ''/b''),
      store_lst\<lparr>lst_entities := [le_row 1 3 ''Mutuals'' ''/b'']\<rparr>)
   \<and> CreateOrUpdateLstEntityWithPathChange (env_files [''/b'']) store_lst
        (candidate_lst\<lparr>le_Name := ''Friends''\<rparr>) =
     (Inr (le_row 2 3 ''Friends'' ''/b''),
      store_lst\<lparr>lst_entities := [le_row 1 3 ''Mutuals'' ''/a'', le_row 2 3 ''Friends'' ''/b'']\<rparr>)"
proof -
  have h1: "filepath_Abs (env_files [''/b'']) (le_ParentDir candidate_lst) = Inr ''/b''"
    by (simp add: env_files_def candidate_lst_def)
  have h1': "filepath_Abs (env_files [''/b''])
      (le_ParentDir (candidate_lst\<lparr>le_Name := ''Friends''\<rparr>)) = Inr ''/b''"
    by (simp add: env_files_def candidate_lst_def)
  have h2: "faults store_lst = []"
    by (simp add: store_lst_def empty_store_def)
  have h3: "distinct (map le_Id (lst_entities store_lst))"
    by (simp add: store_lst_def empty_store_def)
  have h4: "q_lst_entities_by_lid_dir (le_LstId candidate_lst) ''/b'' store_lst = []"
    by code_simp
  have h4': "q_lst_entities_by_lid_dir (le_LstId (candidate_lst\<lparr>le_Name := ''Friends''\<rparr>))
      ''/b'' store_lst = []"
    by code_simp
  have f: "find (\<lambda>x. strings_EqualFold (env_files [''/b'']) (le_Name x) (le_Name candidate_lst))
      (q_lst_entities_by_lid (le_LstId candidate_lst) store_lst) =
      Some (le_row 1 3 ''Mutuals'' ''/a'')"
    by code_simp
  have f': "find (\<lambda>x. strings_EqualFold (env_files [''/b'']) (le_Name x)
        (le_Name (candidate_lst\<lparr>le_Name := ''Friends''\<rparr>)))
      (q_lst_entities_by_lid (le_LstId (candidate_lst\<lparr>le_Name := ''Friends''\<rparr>)) store_lst) =
      None"
    by code_simp
  have n: "next_rowid (map le_Id (lst_entities store_lst)) = 2"
    by code_simp
  have a: "CreateOrUpdateLstEntityWithPathChange (env_files [''/b'']) store_lst candidate_lst =
     (Inr (le_row 1 3 ''Mutuals'' ''/b''),
      store_lst\<lparr>lst_entities := [le_row 1 3 ''Mutuals'' ''/b'']\<rparr>)"
    using C6_list_create_fallback [OF h1 h2 h3 h4, THEN conjunct1, rule_format,
        of "le_row 1 3 ''Mutuals'' ''/a''" 1] f
    by (simp add: store_lst_def empty_store_def le_row_def)
  have b: "CreateOrUpdateLstEntityWithPathChange (env_files [''/b'']) store_lst
        (candidate_lst\<lparr>le_Name := ''Friends''\<rparr>) =
     (Inr (le_row 2 3 ''Friends'' ''/b''),
      store_lst\<lparr>lst_entities := [le_row 1 3 ''Mutuals'' ''/a'', le_row 2 3 ''Friends'' ''/b'']\<rparr>)"
    using C6_list_create_fallback [OF h1' h2 h3 h4', THEN conjunct2, rule_format, OF f'] n
    by (simp add: store_lst_def empty_store_def le_row_def candidate_lst_def)
  from a b show ?thesis by blast
qed

subsection \<open>Store errors of the locate paths\<close>

text \<open>
  C7 does not hold of the code: both locate functions call \<^verbatim>\<open>db.Exec\<close> for the
  \<^verbatim>\<open>UPDATE\<close> and drop what it returns. On the store that tracks account 42 at
  \<^verbatim>\<open>/data/X\<close> and at \<^verbatim>\<open>/data/X2\<close>, with the marker file inside \<^verbatim>\<open>/data/X2\<close>, the
  \<^verbatim>\<open>UPDATE\<close> of row 1 raises the \<^verbatim>\<open>UNIQUE\<close> error, and \<^verbatim>\<open>LocateUserEntity\<close> returns
  row 1 with the new directory and no error, the store unchanged;
  \<^verbatim>\<open>CreateOrUpdateUserEntityWithPathChange\<close>, which reads the error of the same
  \<^verbatim>\<open>UPDATE\<close>, returns it. Likewise \<^verbatim>\<open>LocateLstEntity\<close> returns success when its
  \<^verbatim>\<open>UPDATE\<close> (the third statement of the call) meets a fault of the store.
\<close>

theorem C7_locate_discards_update_error:
  "db_Exec store_two (sql_update_user_entity_dir ''/data/X2'' (Some 1)) =
     (Inl ErrUnique, store_two)
   \<and> LocateUserEntity (env_files [''/data/X2/.user'']) store_two 42 ''/data/X2'' =
       (Inr (Some (ue_row 1 42 ''alice'' ''/data/X2'')), store_two)
   \<and> CreateOrUpdateUserEntityWithPathChange (env_files [''/data/X2/.user'']) store_two
        (candidate_user\<lparr>ue_ParentDir := ''/data/X2''\<rparr>) ''/data'' =
       (Inl ErrUnique, store_two)
   \<and> db_Exec (store_lst\<lparr>faults := [Some 5]\<rparr>) (sql_update_lst_entity_dir ''/b'' (Some 1)) =
       (Inl (ErrStore 5), store_lst)
   \<and> LocateLstEntity (env_files [''/b'']) (store_lst\<lparr>faults := [None, None, Some 5]\<rparr>) 3 ''/b'' =
       (Inr (Some (le_row 1 3 ''Mutuals'' ''/b'')), store_lst)"
  by code_simp

subsection \<open>Absence is not failure\<close>

text \<open>
  C8: on a store that raises no fault, each get operation whose query matches no row
  returns \<^verbatim>\<open>nil, nil\<close> (\<open>Inr None\<close>) and leaves the store as it was; so does
  \<^verbatim>\<open>LocateUserEntity\<close> when no row matches \<open>(uid, p)\<close> for the canonical directory
  \<open>p\<close>, the marker phase does not resolve (no row of the account, or no marker file
  inside \<open>p\<close>) and no row of the account has the marker file in its stored directory;
  and so does \<^verbatim>\<open>LocateLstEntity\<close> when no row matches \<open>(lid, p)\<close> and the fallback
  does not resolve (no row of the list, or \<open>p\<close> does not exist on disk).
\<close>

theorem C8_absence_is_not_failure:
  assumes "faults s = []"
  shows "(q_users_by_id uid s = [] \<longrightarrow> GetUserById s uid = (Inr None, s))
       \<and> (q_user_entities_by_id i s = [] \<longrightarrow> GetUserEntity s i = (Inr None, s))
       \<and> (q_lsts_by_id lid s = [] \<longrightarrow> GetLst s lid = (Inr None, s))
       \<and> (q_lst_entities_by_id i s = [] \<longrightarrow> GetLstEntity s i = (Inr None, s))
       \<and> (q_user_links_by_uid_parent uid j s = [] \<longrightarrow> GetUserLink s uid j = (Inr None, s))
       \<and> (filepath_Abs e dir = Inr p
            \<and> q_user_entities_by_uid_dir uid p s = []
            \<and> (q_user_entities_by_uid uid s = [] \<or> \<not> marker_in e p)
            \<and> list_all (\<lambda>x. \<not> marker_in e (ue_ParentDir x)) (q_user_entities_by_uid uid s)
            \<longrightarrow> LocateUserEntity e s uid dir = (Inr None, s))
       \<and> (filepath_Abs e dir = Inr p
            \<and> q_lst_entities_by_lid_dir lid p s = []
            \<and> (q_lst_entities_by_lid lid s = [] \<or> os_Stat e p \<noteq> None)
            \<longrightarrow> LocateLstEntity e s lid dir = (Inr None, s))"
proof (intro conjI impI)
  show "GetUserById s uid = (Inr None, s)" if "q_users_by_id uid s = []"
    using assms that by (simp add: GetUserById_def db_Get_ok)
  show "GetUserEntity s i = (Inr None, s)" if "q_user_entities_by_id i s = []"
    using assms that by (simp add: GetUserEntity_def db_Get_ok)
  show "GetLst s lid = (Inr None, s)" if "q_lsts_by_id lid s = []"
    using assms that by (simp add: GetLst_def db_Get_ok)
  show "GetLstEntity s i = (Inr None, s)" if "q_lst_entities_by_id i s = []"
    using assms that by (simp add: GetLstEntity_def db_Get_ok)
  show "GetUserLink s uid j = (Inr None, s)" if "q_user_links_by_uid_parent uid j s = []"
    using assms that by (simp add: GetUserLink_def db_Get_ok)
  show "LocateUserEntity e s uid dir = (Inr None, s)"
    if h: "filepath_Abs e dir = Inr p
            \<and> q_user_entities_by_uid_dir uid p s = []
            \<and> (q_user_entities_by_uid uid s = [] \<or> \<not> marker_in e p)
            \<and> list_all (\<lambda>x. \<not> marker_in e (ue_ParentDir x)) (q_user_entities_by_uid uid s)"
  proof -
    from h have scan: "locate_user_scan e s p (q_user_entities_by_uid uid s) = (Inr None, s)"
      by (simp add: locate_user_scan_none del: not_None_eq)
    from h assms scan have rest: "locate_user_rest e s uid p = (Inr None, s)"
      by (simp add: locate_user_rest_def db_Get_ok db_Select_ok del: not_None_eq)
    from h consider "q_user_entities_by_uid uid s = []" | "\<not> marker_in e p" by blast
    then show ?thesis
    proof cases
      case 1
      with h assms rest show ?thesis
        by (simp add: LocateUserEntity_def db_Select_ok del: not_None_eq)
    next
      case 2
      with h rest show ?thesis
        by (simp add: LocateUserEntity_def del: not_None_eq)
    qed
  qed
  show "LocateLstEntity e s lid dir = (Inr None, s)"
    if h: "filepath_Abs e dir = Inr p
            \<and> q_lst_entities_by_lid_dir lid p s = []
            \<and> (q_lst_entities_by_lid lid s = [] \<or> os_Stat e p \<noteq> None)"
  proof -
    have scan: "locate_lst_scan e s p (q_lst_entities_by_lid lid s) = (Inr None, s)"
    proof (cases "os_Stat e p = None")
      case True
      with h show ?thesis by simp
    next
      case False
      then have "locate_lst_scan e s p rows = (Inr None, s)" for rows
        by (induction rows) (simp_all del: not_None_eq)
      then show ?thesis .
    qed
    from h assms scan show ?thesis
      by (simp add: LocateLstEntity_def db_Get_ok db_Select_ok)
  qed
qed


text \<open>
  Each operation on a store in which its query has no row; the two locate operations
  on stores that do hold a row of the account and of the list, at another directory.
\<close>

theorem C8_absence_is_not_failure_witness:
  "GetUserById store_one 42 = (Inr None, store_one)
   \<and> GetUserEntity store_one 5 = (Inr None, store_one)
   \<and> GetLst store_one 3 = (Inr None, store_one)
   \<and> GetLstEntity store_one 5 = (Inr None, store_one)
   \<and> GetUserLink store_one 42 1 = (Inr None, store_one)
   \<and> LocateUserEntity (env_files []) store_one 42 ''/elsewhere'' = (Inr None, store_one)
   \<and> LocateLstEntity (env_files []) store_lst 3 ''/b'' = (Inr None, store_lst)"
proof -
  have f1: "faults store_one = []"
    by (simp add: store_one_def empty_store_def)
  have f2: "faults store_lst = []"
    by (simp add: store_lst_def empty_store_def)
  have q1: "q_users_by_id 42 store_one = []"
    by (simp add: q_users_by_id_def store_one_def empty_store_def)
  have q2: "q_user_entities_by_id 5 store_one = []"
    by (simp add: q_user_entities_by_id_def store_one_def empty_store_def ue_row_def)
  have q3: "q_lsts_by_id 3 store_one = []"
    by (simp add: q_lsts_by_id_def store_one_def empty_store_def)
  have q4: "q_lst_entities_by_id 5 store_one = []"
    by (simp add: q_lst_entities_by_id_def store_one_def empty_store_def)
  have q5: "q_user_links_by_uid_parent 42 1 store_one = []"
    by (simp add: q_user_links_by_uid_parent_def store_one_def empty_store_def)
  have q6: "filepath_Abs (env_files []) ''/elsewhere'' = Inr ''/elsewhere''
      \<and> q_user_entities_by_uid_dir 42 ''/elsewhere'' store_one = []
      \<and> (q_user_entities_by_uid 42 store_one = [] \<or> \<not> marker_in (env_files []) ''/elsewhere'')
      \<and> list_all (\<lambda>x. \<not> marker_in (env_files []) (ue_ParentDir x))
           (q_user_entities_by_uid 42 store_one)"
    by code_simp
  have q7: "filepath_Abs (env_files []) ''/b'' = Inr ''/b''
      \<and> q_lst_entities_by_lid_dir 3 ''/b'' store_lst = []
      \<and> (q_lst_entities_by_lid 3 store_lst = [] \<or> os_Stat (env_files []) ''/b'' \<noteq> None)"
    by code_simp
  note a = C8_absence_is_not_failure [OF f1, where uid = 42 and i = 5 and lid = 3 and j = 1
      and e = "env_files []" and dir = "''/elsewhere''" and p = "''/elsewhere''"]
  note b = C8_absence_is_not_failure [OF f2, where lid = 3
      and e = "env_files []" and dir = "''/b''" and p = "''/b''"]
  from a q1 q2 q3 q4 q5 q6 have
    "GetUserById store_one 42 = (Inr None, store_one)"
    "GetUserEntity store_one 5 = (Inr None, store_one)"
    "GetLst store_one 3 = (Inr None, store_one)"
    "GetLstEntity store_one 5 = (Inr None, store_one)"
    "GetUserLink store_one 42 1 = (Inr None, store_one)"
    "LocateUserEntity (env_files []) store_one 42 ''/elsewhere'' = (Inr None, store_one)"
    by blast+
  moreover from b q7 have "LocateLstEntity (env_files []) store_lst 3 ''/b'' = (Inr None, store_lst)"
    by blast
  ultimately show ?thesis by blast
qed

subsection \<open>The marker fast path bypasses the exact match\<close>

text \<open>
  C9, as stated, fails in the very case it names: when a different row of the account
  already stores the canonical directory, the \<^verbatim>\<open>UPDATE\<close> of the first row is rejected
  by \<^verbatim>\<open>UNIQUE (user_id, parent_dir)\<close>, and the rows of the store are what they were.
\<close>

theorem C9_counterexample:
  "q_user_entities_by_uid 42 store_two =
     [ue_row 1 42 ''alice'' ''/data/X'', ue_row 2 42 ''alice'' ''/data/X2'']
   \<and> marker_in (env_files [''/data/X2/.user'']) ''/data/X2''
   \<and> LocateUserEntity (env_files [''/data/X2/.user'']) store_two 42 ''/data/X2'' =
       (Inr (Some (ue_row 1 42 ''alice'' ''/data/X2'')), store_two)
   \<and> user_entities store_two =
       [ue_row 1 42 ''alice'' ''/data/X'', ue_row 2 42 ''alice'' ''/data/X2'']"
  by code_simp

text \<open>
  C9, amended: if the marker file exists inside the canonical directory \<open>p\<close>, \<open>r\<close> is
  the first row the store returns for the account, no different row of the account
  already stores \<open>p\<close> and the store raises no error, then \<^verbatim>\<open>LocateUserEntity\<close>
  rewrites the stored directory of \<open>r\<close> to \<open>p\<close> and returns \<open>r\<close> with \<^verbatim>\<open>ParentDir\<close>
  \<open>p\<close>. It does so without the exact-match lookup: also when \<open>r\<close> itself already
  matches \<open>(uid, p)\<close>, where lines 310 to 347, which begin with that lookup, return \<open>r\<close>
  as stored and write nothing. Row ids are distinct (\<^verbatim>\<open>PRIMARY KEY (id)\<close>). What the
  call does when a different row already stores \<open>p\<close> is not part of the statement.
\<close>

theorem C9_marker_bypasses_exact_match:
  assumes "filepath_Abs e dir = Inr p"
    and "marker_in e p"
    and "faults s = []"
    and "distinct (map ue_Id (user_entities s))"
    and "filter (\<lambda>x. ue_Uid x = uid) (user_entities s) = r # rest"
    and "ue_Id r = Some i"
    and "\<not> list_ex (\<lambda>x. ue_Id x \<noteq> Some i \<and> ue_Uid x = uid \<and> nocase_eq (ue_ParentDir x) p)
            (user_entities s)"
  shows "LocateUserEntity e s uid dir =
           (Inr (Some (r\<lparr>ue_ParentDir := p\<rparr>)),
            s\<lparr>user_entities :=
                map (\<lambda>x. if ue_Id x = Some i then x\<lparr>ue_ParentDir := p\<rparr> else x)
                  (user_entities s)\<rparr>)
       \<and> (nocase_eq (ue_ParentDir r) p \<longrightarrow> locate_user_rest e s uid p = (Inr (Some r), s))"
proof -
  from first_of_filter [OF assms(5)] have r: "r \<in> set (user_entities s)" "ue_Uid r = uid"
    by simp_all
  from assms(7) have free: "\<not> ue_taken (user_entities s) (Some i) (ue_Uid r) p"
    by (simp add: ue_taken_def r(2))
  have sel: "q_user_entities_by_uid uid s = r # rest"
    using assms(5) by (simp add: q_user_entities_by_uid_def)
  have fast: "LocateUserEntity e s uid dir =
           (Inr (Some (r\<lparr>ue_ParentDir := p\<rparr>)),
            s\<lparr>user_entities :=
                map (\<lambda>x. if ue_Id x = Some i then x\<lparr>ue_ParentDir := p\<rparr> else x)
                  (user_entities s)\<rparr>)"
    using assms(1,2,3,6) sel ue_update_accepted [OF assms(4) r(1) assms(6) free]
    by (simp add: LocateUserEntity_def db_Select_ok db_Exec_ok)
  have exact: "locate_user_rest e s uid p = (Inr (Some r), s)" if m: "nocase_eq (ue_ParentDir r) p"
  proof -
    have "filter (\<lambda>x. ue_Uid x = uid \<and> nocase_eq (ue_ParentDir x) p) (user_entities s) =
        filter (\<lambda>x. nocase_eq (ue_ParentDir x) p) (filter (\<lambda>x. ue_Uid x = uid) (user_entities s))"
      by (simp add: conj_commute)
    with assms(5) m have "q_user_entities_by_uid_dir uid p s =
        r # filter (\<lambda>x. nocase_eq (ue_ParentDir x) p) rest"
      by (simp add: q_user_entities_by_uid_dir_def)
    with assms(3) show ?thesis
      by (simp add: locate_user_rest_def db_Get_ok)
  qed
  from fast exact show ?thesis by blast
qed

text \<open>
  Account 42 has two rows, the first at \<^verbatim>\<open>/Data/X\<close>; the marker file is inside
  \<^verbatim>\<open>/data/x\<close>, the same directory under \<^verbatim>\<open>NOCASE\<close>. The call rewrites the first row to
  the spelling of the candidate; the exact-match phase on the same store returns the
  row as stored.
\<close>

theorem C9_marker_bypasses_exact_match_witness:
  "LocateUserEntity (env_files [''/data/x/.user'']) store_case 42 ''/data/x'' =
     (Inr (Some (ue_row 1 42 ''alice'' ''/data/x'')),
      store_case\<lparr>user_entities :=
        [ue_row 1 42 ''alice'' ''/data/x'', ue_row 2 42 ''alice'' ''/other'']\<rparr>)
   \<and> locate_user_rest (env_files [''/data/x/.user'']) store_case 42 ''/data/x'' =
     (Inr (Some (ue_row 1 42 ''alice'' ''/Data/X'')), store_case)"
proof -
  have h1: "filepath_Abs (env_files [''/data/x/.user'']) ''/data/x'' = Inr ''/data/x''"
    by (simp add: env_files_def)
  have h2: "marker_in (env_files [''/data/x/.user'']) ''/data/x''"
    by (simp add: env_files_def)
  have h3: "faults store_case = []"
    by (simp add: store_case_def empty_store_def)
  have h4: "distinct (map ue_Id (user_entities store_case))"
    by (simp add: store_case_def empty_store_def ue_row_def)
  have h5: "filter (\<lambda>x. ue_Uid x = 42) (user_entities store_case) =
      ue_row 1 42 ''alice'' ''/Data/X'' # [ue_row 2 42 ''alice'' ''/other'']"
    by (simp add: store_case_def empty_store_def ue_row_def)
  have h6: "ue_Id (ue_row 1 42 ''alice'' ''/Data/X'') = Some 1"
    by (simp add: ue_row_def)
  have h7: "\<not> list_ex (\<lambda>x. ue_Id x \<noteq> Some 1 \<and> ue_Uid x = 42 \<and> nocase_eq (ue_ParentDir x) ''/data/x'')
            (user_entities store_case)"
    by code_simp
  have m: "nocase_eq (ue_ParentDir (ue_row 1 42 ''alice'' ''/Data/X'')) ''/data/x''"
    by code_simp
  note th = C9_marker_bypasses_exact_match [OF h1 h2 h3 h4 h5 h6 h7]
  from th have a: "LocateUserEntity (env_files [''/data/x/.user'']) store_case 42 ''/data/x'' =
     (Inr (Some (ue_row 1 42 ''alice'' ''/data/x'')),
      store_case\<lparr>user_entities :=
        [ue_row 1 42 ''alice'' ''/data/x'', ue_row 2 42 ''alice'' ''/other'']\<rparr>)"
    by (simp add: store_case_def empty_store_def ue_row_def)
  from th m have b: "locate_user_rest (env_files [''/data/x/.user'']) store_case 42 ''/data/x'' =
     (Inr (Some (ue_row 1 42 ''alice'' ''/Data/X'')), store_case)"
    by blast
  from a b show ?thesis by blast
qed

subsection \<open>Rows written by the create path\<close>

text \<open>
  What each statement of the create path does to the rows of \<^verbatim>\<open>user_entities\<close>.
\<close>

lemma db_Select_rows: "user_entities (snd (db_Select t q)) = user_entities t"
  by (simp add: db_Select_def next_fault_def split: list.splits option.splits)

lemma db_Exec_insert_rows:
  "user_entities (snd (db_Exec t (sql_insert_user_entity uid n d))) = user_entities t
   \<or> (\<exists>i. user_entities (snd (db_Exec t (sql_insert_user_entity uid n d))) =
         user_entities t @
           [\<lparr>ue_Id = Some i, ue_Uid = uid, ue_Name = n, ue_LatestReleaseTime = None,
             ue_ParentDir = d, ue_MediaCount = None\<rparr>])"
  by (simp add: db_Exec_def next_fault_def sql_insert_user_entity_def Let_def
      split: list.splits option.splits)

lemma ids_after_rewrite:
  "(\<And>x. ue_Id (f x) = ue_Id x) \<Longrightarrow> map ue_Id (map (\<lambda>x. if c x then f x else x) rows) = map ue_Id rows"
  by (induction rows) simp_all

lemma db_Exec_update_ids:
  "map ue_Id (user_entities (snd (db_Exec t (sql_update_user_entity_dir_name d n rid)))) =
   map ue_Id (user_entities t)"
  by (simp add: db_Exec_def next_fault_def sql_update_user_entity_dir_name_def Let_def
      ids_after_rewrite split: list.splits option.splits)

lemma create_user_scan_ids:
  "create_user_scan e t ent rows = Some (res, t') \<Longrightarrow>
   map ue_Id (user_entities t') = map ue_Id (user_entities t)"
proof (induction rows)
  case Nil
  then show ?case by simp
next
  case (Cons x rows)
  show ?case
  proof (cases "marker_in e (ue_ParentDir x)")
    case True
    with Cons.prems
      db_Exec_update_ids [where t = t and d = "ue_ParentDir ent" and n = "ue_Name ent"
        and rid = "ue_Id x"]
    show ?thesis
      by (auto split: prod.splits sum.splits)
  next
    case False
    with Cons show ?thesis by (simp del: not_None_eq)
  qed
qed

lemma create_user_rest_rows:
  "map ue_Id (user_entities (snd (create_user_rest e t ent))) = map ue_Id (user_entities t)
   \<or> (\<exists>i. user_entities (snd (create_user_rest e t ent)) =
         user_entities t @
           [\<lparr>ue_Id = Some i, ue_Uid = ue_Uid ent, ue_Name = ue_Name ent,
             ue_LatestReleaseTime = None, ue_ParentDir = ue_ParentDir ent,
             ue_MediaCount = None\<rparr>])"
proof (cases "db_Select t (q_user_entities_by_uid (ue_Uid ent))")
  case (Pair res t1)
  then have t1: "user_entities t1 = user_entities t"
    using db_Select_rows [of t "q_user_entities_by_uid (ue_Uid ent)"] by simp
  show ?thesis
  proof (cases res)
    case (Inl err)
    with Pair t1 show ?thesis by (simp add: create_user_rest_def)
  next
    case (Inr entities)
    show ?thesis
    proof (cases "create_user_scan e t1 ent entities")
      case None
      have "snd (create_user_rest e t ent) =
          snd (db_Exec t1 (sql_insert_user_entity (ue_Uid ent) (ue_Name ent) (ue_ParentDir ent)))"
        using Pair Inr None by (simp add: create_user_rest_def split: prod.splits sum.splits)
      with db_Exec_insert_rows [of t1 "ue_Uid ent" "ue_Name ent" "ue_ParentDir ent"] t1
      show ?thesis by auto
    next
      case (Some a)
      obtain r t' where a: "a = (r, t')" by (cases a)
      with Some create_user_scan_ids have "map ue_Id (user_entities t') = map ue_Id (user_entities t1)"
        by blast
      with Pair Inr Some a t1 show ?thesis by (simp add: create_user_rest_def)
    qed
  qed
qed

text \<open>
  C10: \<^verbatim>\<open>CreateUserEntity\<close> either leaves the rows of \<^verbatim>\<open>user_entities\<close> as they were or
  appends one row, and \<^verbatim>\<open>CreateOrUpdateUserEntityWithPathChange\<close> either keeps the same
  row ids (it inserted nothing) or appends one row; the appended row holds the
  candidate's \<^verbatim>\<open>user_id\<close> and \<^verbatim>\<open>name\<close> and the canonical directory, and its
  \<^verbatim>\<open>latest_release_time\<close> and \<^verbatim>\<open>media_count\<close> are \<^verbatim>\<open>NULL\<close>, whatever the candidate
  carries in these fields.
\<close>

theorem C10_insert_leaves_stats_null:
  "(user_entities (snd (CreateUserEntity e s ent)) = user_entities s
    \<or> (\<exists>i p. filepath_Abs e (ue_ParentDir ent) = Inr p
          \<and> user_entities (snd (CreateUserEntity e s ent)) =
              user_entities s @
                [\<lparr>ue_Id = Some i, ue_Uid = ue_Uid ent, ue_Name = ue_Name ent,
                  ue_LatestReleaseTime = None, ue_ParentDir = p, ue_MediaCount = None\<rparr>]))
   \<and> (map ue_Id (user_entities (snd (CreateOrUpdateUserEntityWithPathChange e s ent rootPath))) =
        map ue_Id (user_entities s)
    \<or> (\<exists>i p. filepath_Abs e (ue_ParentDir ent) = Inr p
          \<and> user_entities (snd (CreateOrUpdateUserEntityWithPathChange e s ent rootPath)) =
              user_entities s @
                [\<lparr>ue_Id = Some i, ue_Uid = ue_Uid ent, ue_Name = ue_Name ent,
                  ue_LatestReleaseTime = None, ue_ParentDir = p, ue_MediaCount = None\<rparr>]))"
proof (cases "filepath_Abs e (ue_ParentDir ent)")
  case (Inl err)
  then show ?thesis
    by (simp add: CreateUserEntity_def CreateOrUpdateUserEntityWithPathChange_def)
next
  case (Inr p)
  let ?ent = "ent\<lparr>ue_ParentDir := p\<rparr>"
  have "snd (CreateUserEntity e s ent) =
      snd (db_Exec s (sql_insert_user_entity (ue_Uid ent) (ue_Name ent) p))"
    using Inr by (simp add: CreateUserEntity_def Let_def split: prod.splits sum.splits)
  with db_Exec_insert_rows [of s "ue_Uid ent" "ue_Name ent" p] Inr
  have first: "user_entities (snd (CreateUserEntity e s ent)) = user_entities s
    \<or> (\<exists>i p. filepath_Abs e (ue_ParentDir ent) = Inr p
          \<and> user_entities (snd (CreateUserEntity e s ent)) =
              user_entities s @
                [\<lparr>ue_Id = Some i, ue_Uid = ue_Uid ent, ue_Name = ue_Name ent,
                  ue_LatestReleaseTime = None, ue_ParentDir = p, ue_MediaCount = None\<rparr>])"
    by auto
  have rest: "map ue_Id (user_entities (snd (create_user_rest e t ?ent))) =
        map ue_Id (user_entities s)
    \<or> (\<exists>i p. filepath_Abs e (ue_ParentDir ent) = Inr p
          \<and> user_entities (snd (create_user_rest e t ?ent)) =
              user_entities s @
                [\<lparr>ue_Id = Some i, ue_Uid = ue_Uid ent, ue_Name = ue_Name ent,
                  ue_LatestReleaseTime = None, ue_ParentDir = p, ue_MediaCount = None\<rparr>])"
    if "user_entities t = user_entities s" for t
    using create_user_rest_rows [of e t ?ent] that Inr by auto
  have second: "map ue_Id (user_entities (snd (CreateOrUpdateUserEntityWithPathChange e s ent rootPath))) =
        map ue_Id (user_entities s)
    \<or> (\<exists>i p. filepath_Abs e (ue_ParentDir ent) = Inr p
          \<and> user_entities (snd (CreateOrUpdateUserEntityWithPathChange e s ent rootPath)) =
              user_entities s @
                [\<lparr>ue_Id = Some i, ue_Uid = ue_Uid ent, ue_Name = ue_Name ent,
                  ue_LatestReleaseTime = None, ue_ParentDir = p, ue_MediaCount = None\<rparr>])"
  proof (cases "marker_in e p")
    case False
    then have "CreateOrUpdateUserEntityWithPathChange e s ent rootPath = create_user_rest e s ?ent"
      using Inr by (simp add: CreateOrUpdateUserEntityWithPathChange_def del: not_None_eq)
    with rest [of s] show ?thesis by simp
  next
    case True
    obtain res s1 where sel: "db_Select s (q_user_entities_by_uid (ue_Uid ent)) = (res, s1)"
      by (cases "db_Select s (q_user_entities_by_uid (ue_Uid ent))")
    then have s1: "user_entities s1 = user_entities s"
      using db_Select_rows [of s "q_user_entities_by_uid (ue_Uid ent)"] by simp
    show ?thesis
    proof (cases res)
      case (Inl err)
      with True Inr sel s1 show ?thesis
        by (simp add: CreateOrUpdateUserEntityWithPathChange_def)
    next
      case rows: (Inr entities)
      show ?thesis
      proof (cases entities)
        case Nil
        with True Inr sel rows
        have "CreateOrUpdateUserEntityWithPathChange e s ent rootPath = create_user_rest e s1 ?ent"
          by (simp add: CreateOrUpdateUserEntityWithPathChange_def)
        with rest [OF s1] show ?thesis by simp
      next
        case (Cons x xs)
        with True Inr sel rows
        have "snd (CreateOrUpdateUserEntityWithPathChange e s ent rootPath) =
            snd (db_Exec s1 (sql_update_user_entity_dir_name p (ue_Name ent) (ue_Id x)))"
          by (simp add: CreateOrUpdateUserEntityWithPathChange_def Let_def
              split: prod.splits sum.splits)
        with db_Exec_update_ids [where t = s1 and d = p and n = "ue_Name ent" and rid = "ue_Id x"]
          s1 show ?thesis by simp
      qed
    qed
  qed
  from first second show ?thesis by blast
qed


text \<open>
  A candidate that carries a release time and a media count, created on the empty
  store by either function: the one row stored has neither.
\<close>

theorem C10_insert_leaves_stats_null_witness:
  "ue_LatestReleaseTime candidate_user = Some 1700000000
   \<and> ue_MediaCount candidate_user = Some 12
   \<and> map ue_LatestReleaseTime (user_entities (snd
         (CreateOrUpdateUserEntityWithPathChange (env_files []) empty_store candidate_user
            ''/data''))) = [None]
   \<and> map ue_MediaCount (user_entities (snd
         (CreateOrUpdateUserEntityWithPathChange (env_files []) empty_store candidate_user
            ''/data''))) = [None]
   \<and> map ue_LatestReleaseTime (user_entities (snd
         (CreateUserEntity (env_files []) empty_store candidate_user))) = [None]
   \<and> map ue_MediaCount (user_entities (snd
         (CreateUserEntity (env_files []) empty_store candidate_user))) = [None]"
proof -
  have grown: "map ue_Id (user_entities (snd
         (CreateOrUpdateUserEntityWithPathChange (env_files []) empty_store candidate_user
            ''/data''))) \<noteq> map ue_Id (user_entities empty_store)"
    by code_simp
  have grown': "user_entities (snd (CreateUserEntity (env_files []) empty_store candidate_user))
      \<noteq> user_entities empty_store"
    by code_simp
  note th = C10_insert_leaves_stats_null [of "env_files []" empty_store candidate_user "''/data''"]
  from th grown obtain i p where
    "user_entities (snd (CreateOrUpdateUserEntityWithPathChange (env_files []) empty_store
        candidate_user ''/data'')) =
     user_entities empty_store @
       [\<lparr>ue_Id = Some i, ue_Uid = ue_Uid candidate_user, ue_Name = ue_Name candidate_user,
         ue_LatestReleaseTime = None, ue_ParentDir = p, ue_MediaCount = None\<rparr>]"
    by blast
  then have a: "map ue_LatestReleaseTime (user_entities (snd
         (CreateOrUpdateUserEntityWithPathChange (env_files []) empty_store candidate_user
            ''/data''))) = [None]"
    "map ue_MediaCount (user_entities (snd
         (CreateOrUpdateUserEntityWithPathChange (env_files []) empty_store candidate_user
            ''/data''))) = [None]"
    by (simp_all add: empty_store_def)
  from th grown' obtain i' p' where
    "user_entities (snd (CreateUserEntity (env_files []) empty_store candidate_user)) =
     user_entities empty_store @
       [\<lparr>ue_Id = Some i', ue_Uid = ue_Uid candidate_user, ue_Name = ue_Name candidate_user,
         ue_LatestReleaseTime = None, ue_ParentDir = p', ue_MediaCount = None\<rparr>]"
    by blast
  then have b: "map ue_LatestReleaseTime (user_entities (snd
         (CreateUserEntity (env_files []) empty_store candidate_user))) = [None]"
    "map ue_MediaCount (user_entities (snd
         (CreateUserEntity (env_files []) empty_store candidate_user))) = [None]"
    by (simp_all add: empty_store_def)
  have c: "ue_LatestReleaseTime candidate_user = Some 1700000000"
    "ue_MediaCount candidate_user = Some 12"
    by (simp_all add: candidate_user_def)
  from a b c show ?thesis by blast
qed

end
